theory Spec2Isabelle
  imports Complex_Main "HOL-Library.Multiset"
begin

section \<open>Python values, errors and containers\<close>

text \<open>
  The development embeds the GO enrichment core of \<^verbatim>\<open>GO.py\<close> (a Python 2 script).
  Python integers are \<^typ>\<open>int\<close>. Python floats are idealised as \<^typ>\<open>real\<close>: rounding,
  infinities and NaN are outside the model, so no statement below depends on them.
  Every exception the modelled code can raise is a value of \<open>error\<close>; a function that
  can raise returns \<open>error + 'a\<close> with \<open>Inl\<close> for the exception.
\<close>

datatype error =
    AssertionError string
  | ZeroDivisionError
  | AttributeError string
  | KeyError string
  | ValueError string
  | UnboundLocalError string
  | SystemExit int

text \<open>Decimal rendering of an integer, as the format directive \<^verbatim>\<open>%i\<close> prints it.\<close>

definition digit_char :: "nat \<Rightarrow> char" where
  "digit_char d = ''0123456789'' ! d"

fun show_nat :: "nat \<Rightarrow> string" where
  "show_nat n = (if n < 10 then [digit_char n] else show_nat (n div 10) @ [digit_char (n mod 10)])"

definition show_int :: "int \<Rightarrow> string" where
  "show_int i = (if i < 0 then CHR ''-'' # show_nat (nat (- i)) else show_nat (nat i))"

text \<open>
  A dictionary is an association list with distinct keys. \<open>dict_set\<close> is the item
  assignment \<^verbatim>\<open>d[k] = v\<close>: it overwrites the entry of an existing key and adds a new key
  at the end. Python 2 leaves the iteration order of a dictionary unspecified; the
  association list fixes one order (insertion order).
\<close>

type_synonym ('k, 'v) dict = "('k \<times> 'v) list"

fun dict_set :: "('k, 'v) dict \<Rightarrow> 'k \<Rightarrow> 'v \<Rightarrow> ('k, 'v) dict" where
  "dict_set [] k v = [(k, v)]"
| "dict_set ((k', v') # d) k v = (if k' = k then (k, v) # d else (k', v') # dict_set d k v)"

definition dict_keys :: "('k, 'v) dict \<Rightarrow> 'k list" where
  "dict_keys d = map fst d"

definition dict_get :: "('k, 'v) dict \<Rightarrow> 'k \<Rightarrow> 'v \<Rightarrow> 'v" where
  "dict_get d k dflt = (case map_of d k of None \<Rightarrow> dflt | Some v \<Rightarrow> v)"

text \<open>
  A gene list is either a Python list or a tuple. Both can be read and iterated; only a
  list has the method \<^verbatim>\<open>extend\<close>.
\<close>

datatype 'a pyseq = PyList "'a list" | PyTuple "'a list"

fun seq_items :: "'a pyseq \<Rightarrow> 'a list" where
  "seq_items (PyList xs) = xs"
| "seq_items (PyTuple xs) = xs"

fun seq_extend :: "'a pyseq \<Rightarrow> 'a list \<Rightarrow> error + 'a pyseq" where
  "seq_extend (PyList xs) ys = Inr (PyList (xs @ ys))"
| "seq_extend (PyTuple xs) ys = Inl (AttributeError ''tuple object has no attribute extend'')"

section \<open>Hypergeometric probability engine\<close>

text \<open>
  \<^verbatim>\<open>MIN_FLOAT = sys.float_info.min\<close>, the smallest positive normalised double.
\<close>

definition MIN_FLOAT :: real where
  "MIN_FLOAT = 1 / 2 ^ 1022"

definition GSL_DBL_EPSILON :: real where
  "GSL_DBL_EPSILON = 1 / 10 ^ 10"

text \<open>
  \<^verbatim>\<open>scipy.special.gammaln\<close> is a library routine. The code calls it on integers only; at
  a positive integer \<open>n\<close> its value is \<open>ln ((n - 1)!)\<close>. At \<open>n \<le> 0\<close> the library returns
  an infinity, which \<^typ>\<open>real\<close> does not have: there the model's value is not the
  library's, and statements about values of \<open>hypergeometric_gamma\<close> are made for
  non-negative \<open>k\<close> inside the support, where every argument of \<open>gammaln\<close> is positive.
\<close>

definition gammaln :: "int \<Rightarrow> real" where
  "gammaln n = ln (fact (nat (n - 1)))"

definition lnchoose :: "int \<Rightarrow> int \<Rightarrow> real" where
  "lnchoose n m =
     (let nf = gammaln (n + 1);
          mf = gammaln (m + 1);
          nmmnf = gammaln (n - m + 1)
      in nf - (mf + nmmnf))"

text \<open>
  \<^verbatim>\<open>hypergeometric_gamma(k, n1, n2, t)\<close>: the point mass. The function has no assertion
  and no raise statement: it first lowers \<open>t\<close> to \<open>n1 + n2\<close>, returns the integer \<open>0\<close>
  outside the support and the clamped exponential inside.
\<close>

definition hypergeometric_gamma :: "int \<Rightarrow> int \<Rightarrow> int \<Rightarrow> int \<Rightarrow> real" where
  "hypergeometric_gamma k n1 n2 t0 =
     (let t = (if t0 > n1 + n2 then n1 + n2 else t0) in
      if k > n1 \<or> k > t then 0
      else if t > n2 \<and> (k + n2) < t then 0
      else
        (let c1 = lnchoose n1 k;
             c2 = lnchoose n2 (t - k);
             c3 = lnchoose (n1 + n2) t
         in max (exp (c1 + c2 - c3)) MIN_FLOAT))"

text \<open>
  The summation loops of the two tail functions share one body:
  \<^verbatim>\<open>tmp = hypergeometric_gamma(i, n0, n1, t); P += tmp; relerr = tmp / P\<close>
  followed by a step of \<open>i\<close>. The division raises \<^verbatim>\<open>ZeroDivisionError\<close> when \<open>P\<close> is
  zero. \<open>loop_down lo\<close> is the loop \<^verbatim>\<open>while i >= lo and relerr > eps and P < 1.0\<close> with
  \<^verbatim>\<open>i -= 1\<close> (the guard \<^verbatim>\<open>i > k\<close> of \<open>hypergeometric_Q\<close> is \<open>i \<ge> k + 1\<close> on integers);
  \<open>loop_up hi\<close> is \<^verbatim>\<open>while i <= hi and relerr > eps and P < 1.0\<close> with \<^verbatim>\<open>i += 1\<close>.
\<close>

function loop_down :: "int \<Rightarrow> int \<Rightarrow> int \<Rightarrow> int \<Rightarrow> int \<Rightarrow> real \<Rightarrow> real \<Rightarrow> error + real" where
  "loop_down lo n0 n1 t i relerr P =
     (if i \<ge> lo \<and> relerr > GSL_DBL_EPSILON \<and> P < 1 then
        (let tmp = hypergeometric_gamma i n0 n1 t;
             P' = P + tmp
         in if P' = 0 then Inl ZeroDivisionError
            else loop_down lo n0 n1 t (i - 1) (tmp / P') P')
      else Inr P)"
  by pat_completeness auto
termination
  by (relation "measure (\<lambda>(lo, n0, n1, t, i, relerr, P). nat (i - lo + 1))") auto

function loop_up :: "int \<Rightarrow> int \<Rightarrow> int \<Rightarrow> int \<Rightarrow> int \<Rightarrow> real \<Rightarrow> real \<Rightarrow> error + real" where
  "loop_up hi n0 n1 t i relerr P =
     (if i \<le> hi \<and> relerr > GSL_DBL_EPSILON \<and> P < 1 then
        (let tmp = hypergeometric_gamma i n0 n1 t;
             P' = P + tmp
         in if P' = 0 then Inl ZeroDivisionError
            else loop_up hi n0 n1 t (i + 1) (tmp / P') P')
      else Inr P)"
  by pat_completeness auto
termination
  by (relation "measure (\<lambda>(hi, n0, n1, t, i, relerr, P). nat (hi - i + 1))") auto

text \<open>
  \<^verbatim>\<open>mode = int(float(t * n0) / float(n0 + n1))\<close>: the quotient truncated towards zero;
  the division raises when the population is empty. The code computes the quotient in
  double precision; \<open>trunc_quot\<close> truncates the exact quotient. The two agree as long as
  \<open>t * n0\<close> and \<open>n0 + n1\<close> are below \<open>2 ^ 53\<close> and the rounded quotient does not reach
  the next integer; for larger products they can differ by one (the code gives 75000000
  where the exact quotient truncates to 74999999). The mode only selects the index at which
  the summation starts: no statement below depends on its value, apart from the evaluations
  of the example data, where all numbers are at most 4.
\<close>

definition trunc_quot :: "int \<Rightarrow> int \<Rightarrow> int" where
  "trunc_quot a b = sgn a * sgn b * (\<bar>a\<bar> div \<bar>b\<bar>)"

definition hypergeometric_P :: "int \<Rightarrow> int \<Rightarrow> int \<Rightarrow> int \<Rightarrow> error + real" where
  "hypergeometric_P k n0 n1 t =
     (if \<not> t \<le> n0 + n1 then Inl (AssertionError ''t larger than population size'')
      else if \<not> n0 \<ge> 0 then Inl (AssertionError ''n0 < 0'')
      else if \<not> n1 \<ge> 0 then Inl (AssertionError ''n1 < 0'')
      else if k \<ge> n0 \<or> k \<ge> t then Inr 1
      else if k < 0 then Inr 0
      else if n0 + n1 = 0 then Inl ZeroDivisionError
      else
        (let mode = trunc_quot (t * n0) (n0 + n1) in
         if k < mode then loop_down 0 n0 n1 t k 1 0
         else
           (case loop_up k n0 n1 t mode 1 0 of
              Inl e \<Rightarrow> Inl e
            | Inr P \<Rightarrow> loop_down 0 n0 n1 t (mode - 1) 1 P)))"

definition hypergeometric_Q :: "int \<Rightarrow> int \<Rightarrow> int \<Rightarrow> int \<Rightarrow> error + real" where
  "hypergeometric_Q k n0 n1 t =
     (if \<not> t \<le> n0 + n1 then Inl (AssertionError ''t larger than population size'')
      else if \<not> n0 \<ge> 0 then Inl (AssertionError ''n0 < 0'')
      else if \<not> n1 \<ge> 0 then Inl (AssertionError ''n1 < 0'')
      else if k \<ge> n0 \<or> k \<ge> t then Inr 1
      else if k < 0 then Inr 0
      else if n0 + n1 = 0 then Inl ZeroDivisionError
      else
        (let mode = trunc_quot (t * n0) (n0 + n1) in
         if k < mode then
           (case loop_up t n0 n1 t mode 1 0 of
              Inl e \<Rightarrow> Inl e
            | Inr P \<Rightarrow> loop_down (k + 1) n0 n1 t (mode - 1) 1 P)
         else loop_up t n0 n1 t (k + 1) 1 0))"

subsection \<open>Argument checks and edge policy of the engine\<close>

lemma MIN_FLOAT_pos: "0 < MIN_FLOAT"
  by (simp add: MIN_FLOAT_def)

text \<open>
  Claim C3, as amended. When \<open>t > n0 + n1\<close>, \<open>n0 < 0\<close> or \<open>n1 < 0\<close>, both tail functions
  \<open>hypergeometric_P\<close> and \<open>hypergeometric_Q\<close> fail at once with an assertion error whose
  message is that of the first violated check. The point mass \<open>hypergeometric_gamma\<close>
  checks nothing: for \<open>t > n1 + n2\<close> it lowers \<open>t\<close> to \<open>n1 + n2\<close> and returns the value it
  returns there.
\<close>

theorem invalid_arguments:
  assumes "t > n0 + n1 \<or> n0 < 0 \<or> n1 < 0"
  shows "hypergeometric_P k n0 n1 t =
           Inl (AssertionError (if t > n0 + n1 then ''t larger than population size''
                                else if n0 < 0 then ''n0 < 0'' else ''n1 < 0''))
       \<and> hypergeometric_Q k n0 n1 t =
           Inl (AssertionError (if t > n0 + n1 then ''t larger than population size''
                                else if n0 < 0 then ''n0 < 0'' else ''n1 < 0''))
       \<and> (t > n0 + n1 \<longrightarrow>
            hypergeometric_gamma k n0 n1 t = hypergeometric_gamma k n0 n1 (n0 + n1))"
  using assms by (auto simp: hypergeometric_P_def hypergeometric_Q_def hypergeometric_gamma_def)

theorem invalid_arguments_witness:
  "((5::int) > 1 + 1 \<or> (1::int) < 0 \<or> (1::int) < 0)
   \<and> hypergeometric_P 1 1 1 5 = Inl (AssertionError ''t larger than population size'')
   \<and> hypergeometric_Q 1 1 1 5 = Inl (AssertionError ''t larger than population size'')
   \<and> hypergeometric_gamma 1 1 1 5 = hypergeometric_gamma 1 1 1 (1 + 1)"
  using invalid_arguments [where k = 1 and ?n0.0 = 1 and ?n1.0 = 1 and t = 5] by simp

text \<open>
  The claim as stated fails for the point mass: with a sample size of 5 drawn from a
  population of 2, \<open>hypergeometric_gamma\<close> reports the probability 1.
\<close>

theorem gamma_clamps_counterexample:
  "(5::int) > 1 + 1 \<and> hypergeometric_gamma 1 1 1 5 = 1"
  by (simp add: hypergeometric_gamma_def lnchoose_def gammaln_def MIN_FLOAT_def)

text \<open>
  Claim C5. The sample size \<open>t\<close> is a number of genes, so \<open>0 \<le> t\<close>: the one caller,
  \<open>UpdateProbabilities\<close>, passes the length of the list of annotated sample genes.
  Under the preconditions \<open>t \<le> n0 + n1\<close>, \<open>0 \<le> n0\<close>, \<open>0 \<le> n1\<close>, both tail functions
  return exactly 1 if \<open>k \<ge> n0\<close> or \<open>k \<ge> t\<close>, and exactly 0 if \<open>k < 0\<close>.
\<close>

theorem tail_edge_policy:
  assumes "t \<le> n0 + n1" and "0 \<le> n0" and "0 \<le> n1" and "0 \<le> t"
  shows "(k \<ge> n0 \<or> k \<ge> t \<longrightarrow>
            hypergeometric_P k n0 n1 t = Inr 1 \<and> hypergeometric_Q k n0 n1 t = Inr 1)
       \<and> (k < 0 \<longrightarrow>
            hypergeometric_P k n0 n1 t = Inr 0 \<and> hypergeometric_Q k n0 n1 t = Inr 0)"
  using assms by (auto simp: hypergeometric_P_def hypergeometric_Q_def)

theorem tail_edge_policy_witness:
  "(2::int) \<le> 3 + 4 \<and> (0::int) \<le> 3 \<and> (0::int) \<le> 4 \<and> (0::int) \<le> 2
   \<and> ((5::int) \<ge> 3 \<or> (5::int) \<ge> 2)
   \<and> hypergeometric_P 5 3 4 2 = Inr 1 \<and> hypergeometric_Q 5 3 4 2 = Inr 1
   \<and> ((2::int) \<ge> 3 \<or> (2::int) \<ge> 2)
   \<and> hypergeometric_P 2 3 4 2 = Inr 1 \<and> hypergeometric_Q 2 3 4 2 = Inr 1
   \<and> (-1::int) < 0
   \<and> hypergeometric_P (-1) 3 4 2 = Inr 0 \<and> hypergeometric_Q (-1) 3 4 2 = Inr 0
   \<and> (0::int) \<le> 0 + 0 \<and> (0::int) \<le> 0 \<and> (-1::int) < 0
   \<and> hypergeometric_P (-1) 0 0 0 = Inr 0 \<and> hypergeometric_Q (-1) 0 0 0 = Inr 0"
  using tail_edge_policy [where t = 2 and ?n0.0 = 3 and ?n1.0 = 4 and k = 5]
    tail_edge_policy [where t = 2 and ?n0.0 = 3 and ?n1.0 = 4 and k = 2]
    tail_edge_policy [where t = 2 and ?n0.0 = 3 and ?n1.0 = 4 and k = "-1"]
    tail_edge_policy [where t = 0 and ?n0.0 = 0 and ?n1.0 = 0 and k = "-1"] by simp

text \<open>
  Claim C6, as amended. With \<open>t' = min t (n1 + n2)\<close>: outside the support (\<open>k > n1\<close>,
  \<open>k > t'\<close>, or \<open>t' > n2\<close> and \<open>k + n2 < t'\<close>) the point mass is exactly 0; for \<open>k \<ge> 0\<close>
  inside the support it is at least \<open>MIN_FLOAT\<close>, hence strictly positive.
\<close>

theorem gamma_support:
  "(k > n1 \<or> k > min t (n1 + n2) \<or> (min t (n1 + n2) > n2 \<and> k + n2 < min t (n1 + n2))
      \<longrightarrow> hypergeometric_gamma k n1 n2 t = 0)
   \<and> (0 \<le> k \<and> k \<le> n1 \<and> k \<le> min t (n1 + n2)
        \<and> \<not> (min t (n1 + n2) > n2 \<and> k + n2 < min t (n1 + n2))
      \<longrightarrow> MIN_FLOAT \<le> hypergeometric_gamma k n1 n2 t \<and> 0 < hypergeometric_gamma k n1 n2 t)"
  using MIN_FLOAT_pos
  by (auto simp: hypergeometric_gamma_def Let_def min_def max_def split: if_splits)

theorem gamma_support_witness:
  "((3::int) > 2 \<or> (3::int) > min 4 (2 + 5) \<or> (min 4 (2 + 5) > (5::int) \<and> (3::int) + 5 < min 4 (2 + 5)))
   \<and> hypergeometric_gamma 3 2 5 4 = 0
   \<and> (0::int) \<le> 1 \<and> (1::int) \<le> 1 \<and> (1::int) \<le> min 2 (1 + 1)
   \<and> \<not> (min 2 (1 + 1) > (1::int) \<and> (1::int) + 1 < min 2 (1 + 1))
   \<and> MIN_FLOAT \<le> hypergeometric_gamma 1 1 1 2 \<and> 0 < hypergeometric_gamma 1 1 1 2"
  using gamma_support [where k = 3 and ?n1.0 = 2 and ?n2.0 = 5 and t = 4]
    gamma_support [where k = 1 and ?n1.0 = 1 and ?n2.0 = 1 and t = 2] by simp

text \<open>
  The claim as stated fails outside the support: asked for 3 successes among 2, the
  function returns 0.
\<close>

theorem gamma_zero_counterexample:
  "hypergeometric_gamma 3 2 5 4 = 0 \<and> \<not> 0 < hypergeometric_gamma 3 2 5 4"
  by (simp add: hypergeometric_gamma_def)

section \<open>Enrichment results\<close>

text \<open>
  The ratio of a result is either a float or the string \<^verbatim>\<open>"na"\<close>. Python 2 orders a
  number below any object that is not a number, so a string compares greater than every
  float; \<open>py2_gt_float v y\<close> and \<open>py2_lt_float v y\<close> are \<^verbatim>\<open>v > y\<close> and \<^verbatim>\<open>v < y\<close> for a
  float \<open>y\<close>.
\<close>

datatype pyval = PyFloat real | PyStr string

fun py2_gt_float :: "pyval \<Rightarrow> real \<Rightarrow> bool" where
  "py2_gt_float (PyFloat x) y = (x > y)"
| "py2_gt_float (PyStr s) y = True"

fun py2_lt_float :: "pyval \<Rightarrow> real \<Rightarrow> bool" where
  "py2_lt_float (PyFloat x) y = (x < y)"
| "py2_lt_float (PyStr s) y = False"

text \<open>
  \<^verbatim>\<open>GOInfo\<close> is one category assignment of a gene; \<^verbatim>\<open>GOResult\<close> is the enrichment
  result of one category, created by \<^verbatim>\<open>GOResult(goid)\<close> with the defaults of the class.
  The attribute \<^verbatim>\<open>mRatio\<close> has no default: it is \<open>None\<close> until \<open>UpdateProbabilities\<close>
  sets it.
\<close>

record GOInfo =
  mGOId :: string
  mGOType :: string
  mDescription :: string

record GOResult =
  mIsOverRepresented :: bool
  mGOId :: string
  mSampleCountsCategory :: int
  mBackgroundCountsCategory :: int
  mSampleCountsTotal :: int
  mBackgroundCountsTotal :: int
  mProbabilityOverRepresentation :: real
  mProbabilityUnderRepresentation :: real
  mRatio :: "pyval option"

definition new_GOResult :: "string \<Rightarrow> GOResult" where
  "new_GOResult goid =
     \<lparr> mIsOverRepresented = False,
       GOResult.mGOId = goid,
       mSampleCountsCategory = 0,
       mBackgroundCountsCategory = 0,
       mSampleCountsTotal = 0,
       mBackgroundCountsTotal = 0,
       mProbabilityOverRepresentation = 0,
       mProbabilityUnderRepresentation = 0,
       mRatio = None \<rparr>"

text \<open>The messages of the three sanity checks of \<^verbatim>\<open>UpdateProbabilities\<close>.\<close>

definition msg_foreground :: "GOResult \<Rightarrow> string" where
  "msg_foreground self =
     GOResult.mGOId self @ '': more counts in foreground ('' @ show_int (mSampleCountsCategory self)
       @ '') than in the background ('' @ show_int (mBackgroundCountsCategory self)
       @ '') - make sure the foreground is part of the background.''"

definition msg_background :: "GOResult \<Rightarrow> string" where
  "msg_background self =
     GOResult.mGOId self @ '': background: more counts in category (''
       @ show_int (mBackgroundCountsCategory self)
       @ '') than in total ('' @ show_int (mBackgroundCountsTotal self) @ '').''"

definition msg_sample :: "GOResult \<Rightarrow> string" where
  "msg_sample self =
     GOResult.mGOId self @ '': forerground: more counts in category (''
       @ show_int (mSampleCountsCategory self)
       @ '') than in total ('' @ show_int (mSampleCountsTotal self) @ '').''"

text \<open>
  \<^verbatim>\<open>GOResult.UpdateProbabilities\<close>: returns unchanged when the background total is
  zero, then checks the three invariants, then computes the two tail probabilities and
  the ratio. An exception of a tail function propagates.
\<close>

definition UpdateProbabilities :: "GOResult \<Rightarrow> error + GOResult" where
  "UpdateProbabilities self =
     (if mBackgroundCountsTotal self = 0 then Inr self
      else if \<not> mBackgroundCountsCategory self \<ge> mSampleCountsCategory self
        then Inl (AssertionError (msg_foreground self))
      else if \<not> mBackgroundCountsTotal self \<ge> mBackgroundCountsCategory self
        then Inl (AssertionError (msg_background self))
      else if \<not> mSampleCountsTotal self \<ge> mSampleCountsCategory self
        then Inl (AssertionError (msg_sample self))
      else
        (case (if mSampleCountsCategory self = 0 then Inr 1
               else hypergeometric_Q (mSampleCountsCategory self - 1)
                      (mBackgroundCountsCategory self)
                      (mBackgroundCountsTotal self - mBackgroundCountsCategory self)
                      (mSampleCountsTotal self)) of
           Inl e \<Rightarrow> Inl e
         | Inr pover \<Rightarrow>
            (case hypergeometric_P (mSampleCountsCategory self)
                    (mBackgroundCountsCategory self)
                    (mBackgroundCountsTotal self - mBackgroundCountsCategory self)
                    (mSampleCountsTotal self) of
               Inl e \<Rightarrow> Inl e
             | Inr punder \<Rightarrow>
                Inr (self\<lparr> mProbabilityOverRepresentation := pover,
                          mProbabilityUnderRepresentation := punder,
                          mRatio := Some
                            (if mSampleCountsTotal self = 0 \<or> mBackgroundCountsCategory self = 0
                             then PyStr ''na''
                             else PyFloat (real_of_int (mSampleCountsCategory self)
                                      * real_of_int (mBackgroundCountsTotal self)
                                      / real_of_int (mSampleCountsTotal self)
                                      / real_of_int (mBackgroundCountsCategory self))) \<rparr>))))"

definition GetCode :: "GOResult \<Rightarrow> error + string" where
  "GetCode v =
     (case mRatio v of
        None \<Rightarrow> Inl (AttributeError ''GOResult instance has no attribute mRatio'')
      | Some ratio \<Rightarrow>
          Inr (if py2_gt_float ratio 1 then ''+''
               else if py2_lt_float ratio 1 then ''-''
               else ''?''))"

section \<open>Annotation frequency counter and enrichment evaluator\<close>

record GOResults =
  mResults :: "(string, GOResult) dict"
  mNumGenes :: int
  mBackgroundCountsTotal :: int
  mSampleCountsTotal :: int
  mBackgroundNumCategories :: int
  mBackgroundGenes :: "(string, int) dict"
  mSampleNumCategories :: int
  mSampleGenes :: "(string, int) dict"

type_synonym gene2go = "(string, GOInfo list) dict"

text \<open>
  \<^verbatim>\<open>GetGOFrequencies\<close>: the inner loop over the assignments of one gene is
  \<open>count_categories\<close>, the outer loop over the gene list is \<open>GetGOFrequencies_loop\<close>.
  The read in \<^verbatim>\<open>counts[go.mGOId] += 1\<close> follows the insertion of the key, so its
  default is never used.
\<close>

fun count_categories :: "GOInfo list \<Rightarrow> int \<times> (string, int) dict \<Rightarrow> int \<times> (string, int) dict" where
  "count_categories [] (totl, counts) = (totl, counts)"
| "count_categories (go # gos) (totl, counts) =
     (let counts1 = (if GOInfo.mGOId go \<notin> set (dict_keys counts)
                     then dict_set counts (GOInfo.mGOId go) 0 else counts);
          counts2 = dict_set counts1 (GOInfo.mGOId go) (dict_get counts1 (GOInfo.mGOId go) 0 + 1)
      in count_categories gos (totl + 1, counts2))"

fun GetGOFrequencies_loop ::
  "gene2go \<Rightarrow> string list \<Rightarrow> int \<times> (string, int) dict \<times> (string, int) dict
     \<Rightarrow> int \<times> (string, int) dict \<times> (string, int) dict" where
  "GetGOFrequencies_loop gene2go [] acc = acc"
| "GetGOFrequencies_loop gene2go (gene_id # genes) (totl, counts, found_genes) =
     (case map_of gene2go gene_id of
        None \<Rightarrow> GetGOFrequencies_loop gene2go genes (totl, counts, found_genes)
      | Some gos \<Rightarrow>
          (let found_genes' = dict_set found_genes gene_id 1;
               (totl', counts') = count_categories gos (totl, counts)
           in GetGOFrequencies_loop gene2go genes (totl', counts', found_genes')))"

definition GetGOFrequencies ::
  "gene2go \<Rightarrow> string list \<Rightarrow> int \<times> (string, int) dict \<times> (string, int) dict" where
  "GetGOFrequencies gene2go genes = GetGOFrequencies_loop gene2go genes (0, [], [])"

text \<open>
  \<^verbatim>\<open>AnalyseGO\<close>: \<open>category_result\<close> is the result record the loop body builds for one
  category of the background tally; \<open>AnalyseGO_loop\<close> is the loop over
  \<^verbatim>\<open>background_counts.keys()\<close>. An \<^verbatim>\<open>AssertionError\<close> of \<open>UpdateProbabilities\<close> is
  caught, reported and answered with \<^verbatim>\<open>sys.exit(0)\<close>; any other exception propagates.
  The default background \<^verbatim>\<open>()\<close> stands for all genes of the map.
\<close>

definition category_result ::
  "string \<Rightarrow> (string, int) dict \<Rightarrow> (string, int) dict \<Rightarrow> (string, int) dict
     \<Rightarrow> (string, int) dict \<Rightarrow> GOResult" where
  "category_result go_id sample_counts sample_genes background_genes background_counts =
     (new_GOResult go_id)
       \<lparr> mSampleCountsCategory := dict_get sample_counts go_id 0,
         GOResult.mSampleCountsTotal := int (length sample_genes),
         GOResult.mBackgroundCountsTotal := int (length background_genes),
         mBackgroundCountsCategory := dict_get background_counts go_id 0 \<rparr>"

fun AnalyseGO_loop ::
  "bool \<Rightarrow> (string, int) dict \<Rightarrow> (string, int) dict \<Rightarrow> (string, int) dict
     \<Rightarrow> (string, int) dict \<Rightarrow> string list \<Rightarrow> (string, GOResult) dict
     \<Rightarrow> error + (string, GOResult) dict" where
  "AnalyseGO_loop do_probabilities sc sg bg bc [] results = Inr results"
| "AnalyseGO_loop do_probabilities sc sg bg bc (go_id # go_ids) results =
     (let result_go = category_result go_id sc sg bg bc in
      if do_probabilities then
        (case UpdateProbabilities result_go of
           Inl (AssertionError msg) \<Rightarrow> Inl (SystemExit 0)
         | Inl e \<Rightarrow> Inl e
         | Inr result_go' \<Rightarrow>
             AnalyseGO_loop do_probabilities sc sg bg bc go_ids (dict_set results go_id result_go'))
      else AnalyseGO_loop do_probabilities sc sg bg bc go_ids (dict_set results go_id result_go))"

definition AnalyseGO :: "gene2go \<Rightarrow> string list \<Rightarrow> string pyseq \<Rightarrow> bool \<Rightarrow> error + GOResults" where
  "AnalyseGO gene2go genes genes_background do_probabilities =
     (let genes_background' =
            (if genes_background = PyTuple [] then dict_keys gene2go
             else seq_items genes_background);
          (background_counts_total, background_counts, background_genes) =
            GetGOFrequencies gene2go genes_background';
          (sample_counts_total, sample_counts, sample_genes) =
            GetGOFrequencies gene2go genes
      in case AnalyseGO_loop do_probabilities sample_counts sample_genes background_genes
                background_counts (dict_keys background_counts) [] of
           Inl e \<Rightarrow> Inl e
         | Inr results \<Rightarrow>
             Inr \<lparr> mResults = results,
                   mNumGenes = int (length genes),
                   mBackgroundCountsTotal = background_counts_total,
                   mSampleCountsTotal = sample_counts_total,
                   mBackgroundNumCategories = int (length background_counts),
                   mBackgroundGenes = background_genes,
                   mSampleNumCategories = int (length sample_counts),
                   mSampleGenes = sample_genes \<rparr>)"

text \<open>Example data: two categories and the tail probabilities of a population of two.\<close>

definition cat_A :: GOInfo where
  "cat_A = \<lparr> GOInfo.mGOId = ''A'', mGOType = ''biol_process'', mDescription = ''a'' \<rparr>"

definition cat_B :: GOInfo where
  "cat_B = \<lparr> GOInfo.mGOId = ''B'', mGOType = ''biol_process'', mDescription = ''b'' \<rparr>"

subsection \<open>Properties of the evaluator\<close>

lemma map_of_dict_set: "map_of (dict_set d k v) = (map_of d)(k \<mapsto> v)"
  by (induction d) (auto simp: fun_eq_iff)

lemma dict_set_not_Nil: "dict_set d k v \<noteq> []"
  by (induction d k v rule: dict_set.induct) auto

lemma GetGOFrequencies_loop_found:
  "GetGOFrequencies_loop gene2go genes (totl, counts, found) = (totl', counts', found')
   \<Longrightarrow> (counts \<noteq> [] \<longrightarrow> found \<noteq> []) \<Longrightarrow> (counts' \<noteq> [] \<longrightarrow> found' \<noteq> [])"
proof (induction genes arbitrary: totl counts found)
  case Nil
  then show ?case by simp
next
  case (Cons gene_id genes)
  show ?case
  proof (cases "map_of gene2go gene_id")
    case None
    with Cons show ?thesis by simp
  next
    case (Some gos)
    obtain t1 c1 where cc: "count_categories gos (totl, counts) = (t1, c1)"
      by (cases "count_categories gos (totl, counts)")
    from Cons.prems(1) Some cc
    have "GetGOFrequencies_loop gene2go genes (t1, c1, dict_set found gene_id 1) = (totl', counts', found')"
      by simp
    then show ?thesis
      by (rule Cons.IH) (simp add: dict_set_not_Nil)
  qed
qed

lemma GetGOFrequencies_found:
  assumes "GetGOFrequencies gene2go genes = (totl, counts, found)" and "k \<in> set (dict_keys counts)"
  shows "found \<noteq> []"
proof -
  from assms(2) have "counts \<noteq> []" by (auto simp: dict_keys_def)
  with GetGOFrequencies_loop_found [OF assms(1) [unfolded GetGOFrequencies_def]]
  show ?thesis by simp
qed

lemma UpdateProbabilities_values:
  assumes "UpdateProbabilities self = Inr r" and "GOResult.mBackgroundCountsTotal self \<noteq> 0"
  shows "Inr (mProbabilityOverRepresentation r) =
           (if mSampleCountsCategory self = 0 then Inr 1
            else hypergeometric_Q (mSampleCountsCategory self - 1)
                   (mBackgroundCountsCategory self)
                   (GOResult.mBackgroundCountsTotal self - mBackgroundCountsCategory self)
                   (GOResult.mSampleCountsTotal self))
       \<and> Inr (mProbabilityUnderRepresentation r) =
           hypergeometric_P (mSampleCountsCategory self)
             (mBackgroundCountsCategory self)
             (GOResult.mBackgroundCountsTotal self - mBackgroundCountsCategory self)
             (GOResult.mSampleCountsTotal self)"
  using assms unfolding UpdateProbabilities_def
  by (auto split: if_splits sum.splits)

lemma AnalyseGO_loop_results:
  assumes "AnalyseGO_loop True sc sg bg bc go_ids results = Inr res"
    and "\<forall>g \<in> S. \<exists>r. map_of results g = Some r
            \<and> UpdateProbabilities (category_result g sc sg bg bc) = Inr r"
  shows "\<forall>g \<in> S \<union> set go_ids. \<exists>r. map_of res g = Some r
            \<and> UpdateProbabilities (category_result g sc sg bg bc) = Inr r"
  using assms
proof (induction go_ids arbitrary: results S)
  case Nil
  then show ?case by simp
next
  case (Cons go_id go_ids)
  from Cons.prems(1) obtain r where
    up: "UpdateProbabilities (category_result go_id sc sg bg bc) = Inr r" and
    rest: "AnalyseGO_loop True sc sg bg bc go_ids (dict_set results go_id r) = Inr res"
    by (auto simp: Let_def split: sum.splits error.splits)
  have "\<forall>g \<in> insert go_id S. \<exists>r'. map_of (dict_set results go_id r) g = Some r'
            \<and> UpdateProbabilities (category_result g sc sg bg bc) = Inr r'"
    using Cons.prems(2) up by (auto simp: map_of_dict_set)
  from Cons.IH [OF rest this] show ?case by simp
qed

lemma AnalyseGO_loop_fails:
  assumes "g \<in> set go_ids" and "UpdateProbabilities (category_result g sc sg bg bc) = Inl e"
  shows "\<exists>e'. AnalyseGO_loop True sc sg bg bc go_ids results = Inl e'"
  using assms
proof (induction go_ids arbitrary: results)
  case Nil
  then show ?case by simp
next
  case (Cons go_id go_ids)
  show ?case
  proof (cases "UpdateProbabilities (category_result go_id sc sg bg bc)")
    case (Inl e1)
    then show ?thesis by (cases e1) (simp_all add: Let_def)
  next
    case (Inr r)
    with Cons.prems have "g \<in> set go_ids" by auto
    from Cons.IH [OF this Cons.prems(2)] Inr show ?thesis by (simp add: Let_def)
  qed
qed

text \<open>
  Claim C1. Let \<open>AnalyseGO\<close> return its results. For every category of the background
  frequency tally, with \<open>n0\<close> its background count, \<open>k\<close> its sample count
  (\<^verbatim>\<open>sample_counts.get(go_id, 0)\<close>), \<open>n1\<close> the number of annotated background genes
  minus \<open>n0\<close> and \<open>t\<close> the number of annotated sample genes: the results hold a record
  for the category whose over-representation p-value is exactly 1 when \<open>k = 0\<close> (no tail
  function is consulted) and the value returned by \<open>hypergeometric_Q (k - 1) n0 n1 t\<close>
  otherwise, and whose under-representation p-value is in every case the value returned
  by \<open>hypergeometric_P k n0 n1 t\<close>.
\<close>

theorem AnalyseGO_probabilities:
  assumes "AnalyseGO gene2go genes genes_background True = Inr res"
    and "GetGOFrequencies gene2go
           (if genes_background = PyTuple [] then dict_keys gene2go
            else seq_items genes_background) = (bt, bc, bg)"
    and "GetGOFrequencies gene2go genes = (st, sc, sg)"
    and "map_of bc go_id = Some n0"
  shows "\<exists>r. map_of (mResults res) go_id = Some r
         \<and> Inr (mProbabilityOverRepresentation r) =
             (if dict_get sc go_id 0 = 0 then Inr 1
              else hypergeometric_Q (dict_get sc go_id 0 - 1) n0
                     (int (length bg) - n0) (int (length sg)))
         \<and> Inr (mProbabilityUnderRepresentation r) =
             hypergeometric_P (dict_get sc go_id 0) n0 (int (length bg) - n0) (int (length sg))"
proof -
  from assms(4) have key: "go_id \<in> set (dict_keys bc)"
    by (auto simp: dict_keys_def dest: map_of_SomeD intro: rev_image_eqI)
  from assms(1-3) obtain results where
    loop: "AnalyseGO_loop True sc sg bg bc (dict_keys bc) [] = Inr results" and
    res: "mResults res = results"
    by (auto simp: AnalyseGO_def Let_def split: sum.splits)
  from AnalyseGO_loop_results [OF loop, of "{}"] key obtain r where
    r: "map_of results go_id = Some r" and
    up: "UpdateProbabilities (category_result go_id sc sg bg bc) = Inr r"
    by auto
  have nz: "GOResult.mBackgroundCountsTotal (category_result go_id sc sg bg bc) \<noteq> 0"
    using GetGOFrequencies_found [OF assms(2) key] by (simp add: category_result_def)
  from UpdateProbabilities_values [OF up nz] assms(4) r res show ?thesis
    by (simp add: category_result_def new_GOResult_def dict_get_def)
qed



lemma gamma_1_1_1_1: "hypergeometric_gamma 1 1 1 1 = 1/2"
  by (simp add: hypergeometric_gamma_def lnchoose_def gammaln_def MIN_FLOAT_def exp_minus)

lemma gamma_0_1_1_1: "hypergeometric_gamma 0 1 1 1 = 1/2"
  by (simp add: hypergeometric_gamma_def lnchoose_def gammaln_def MIN_FLOAT_def exp_minus)

lemma Q_0_1_1_1: "hypergeometric_Q 0 1 1 1 = Inr (1/2)"
  by (simp add: hypergeometric_Q_def trunc_quot_def gamma_1_1_1_1 GSL_DBL_EPSILON_def)

lemma P_0_1_1_1: "hypergeometric_P 0 1 1 1 = Inr (1/2)"
  by (simp add: hypergeometric_P_def trunc_quot_def gamma_0_1_1_1 GSL_DBL_EPSILON_def)

lemma P_1_1_1_1: "hypergeometric_P 1 1 1 1 = Inr 1"
  by (simp add: hypergeometric_P_def)

lemma freq_background_example:
  "GetGOFrequencies [(''g1'', [cat_A]), (''g2'', [cat_B])] [''g1'', ''g2'']
     = (2, [(''A'', 1), (''B'', 1)], [(''g1'', 1), (''g2'', 1)])"
  by (simp add: GetGOFrequencies_def cat_A_def cat_B_def dict_keys_def dict_get_def)

lemma freq_sample_example:
  "GetGOFrequencies [(''g1'', [cat_A]), (''g2'', [cat_B])] [''g1'']
     = (1, [(''A'', 1)], [(''g1'', 1)])"
  by (simp add: GetGOFrequencies_def cat_A_def cat_B_def dict_keys_def dict_get_def)

theorem AnalyseGO_probabilities_witness:
  "AnalyseGO [(''g1'', [cat_A]), (''g2'', [cat_B])] [''g1''] (PyList [''g1'', ''g2'']) True
     = Inr \<lparr> mResults =
          [(''A'', \<lparr> mIsOverRepresented = False, mGOId = ''A'',
                     mSampleCountsCategory = 1, mBackgroundCountsCategory = 1,
                     mSampleCountsTotal = 1, mBackgroundCountsTotal = 2,
                     mProbabilityOverRepresentation = 1 / 2,
                     mProbabilityUnderRepresentation = 1,
                     mRatio = Some (PyFloat 2) \<rparr>),
           (''B'', \<lparr> mIsOverRepresented = False, mGOId = ''B'',
                     mSampleCountsCategory = 0, mBackgroundCountsCategory = 1,
                     mSampleCountsTotal = 1, mBackgroundCountsTotal = 2,
                     mProbabilityOverRepresentation = 1,
                     mProbabilityUnderRepresentation = 1 / 2,
                     mRatio = Some (PyFloat 0) \<rparr>)],
          mNumGenes = 1, mBackgroundCountsTotal = 2, mSampleCountsTotal = 1,
          mBackgroundNumCategories = 2,
          mBackgroundGenes = [(''g1'', 1), (''g2'', 1)],
          mSampleNumCategories = 1, mSampleGenes = [(''g1'', 1)] \<rparr>
   \<and> map_of [(''A'', 1::int), (''B'', 1)] ''A'' = Some 1
   \<and> hypergeometric_Q (1 - 1) 1 (2 - 1) 1 = Inr (1 / 2)
   \<and> hypergeometric_P 1 1 (2 - 1) 1 = Inr 1
   \<and> map_of [(''A'', 1::int), (''B'', 1)] ''B'' = Some 1
   \<and> hypergeometric_P 0 1 (2 - 1) 1 = Inr (1 / 2)"
proof -
  let ?g = "[(''g1'', [cat_A]), (''g2'', [cat_B])]"
  let ?bc = "[(''A'', 1::int), (''B'', 1)]"
  have bg: "GetGOFrequencies ?g
      (if PyList [''g1'', ''g2''] = PyTuple [] then dict_keys ?g
       else seq_items (PyList [''g1'', ''g2''])) = (2, ?bc, [(''g1'', 1), (''g2'', 1)])"
    using freq_background_example by simp
  have run: "AnalyseGO ?g [''g1''] (PyList [''g1'', ''g2'']) True
     = Inr \<lparr> mResults =
          [(''A'', \<lparr> mIsOverRepresented = False, mGOId = ''A'',
                     mSampleCountsCategory = 1, mBackgroundCountsCategory = 1,
                     mSampleCountsTotal = 1, mBackgroundCountsTotal = 2,
                     mProbabilityOverRepresentation = 1 / 2,
                     mProbabilityUnderRepresentation = 1,
                     mRatio = Some (PyFloat 2) \<rparr>),
           (''B'', \<lparr> mIsOverRepresented = False, mGOId = ''B'',
                     mSampleCountsCategory = 0, mBackgroundCountsCategory = 1,
                     mSampleCountsTotal = 1, mBackgroundCountsTotal = 2,
                     mProbabilityOverRepresentation = 1,
                     mProbabilityUnderRepresentation = 1 / 2,
                     mRatio = Some (PyFloat 0) \<rparr>)],
          mNumGenes = 1, mBackgroundCountsTotal = 2, mSampleCountsTotal = 1,
          mBackgroundNumCategories = 2,
          mBackgroundGenes = [(''g1'', 1), (''g2'', 1)],
          mSampleNumCategories = 1, mSampleGenes = [(''g1'', 1)] \<rparr>"
    by (simp add: AnalyseGO_def dict_keys_def dict_get_def category_result_def new_GOResult_def
        UpdateProbabilities_def P_0_1_1_1 P_1_1_1_1 Q_0_1_1_1
        freq_background_example freq_sample_example)
  have a: "map_of ?bc ''A'' = Some 1" and b: "map_of ?bc ''B'' = Some 1" by simp_all
  from AnalyseGO_probabilities [OF run bg freq_sample_example a]
       AnalyseGO_probabilities [OF run bg freq_sample_example b]
  show ?thesis using run by (simp add: dict_get_def)
qed

text \<open>
  Claim C4. For a category of the background tally, if one of the invariants
  background count \<open>\<ge>\<close> sample count, background total \<open>\<ge>\<close> background count, sample total
  \<open>\<ge>\<close> sample count is violated, the probability computation of that category raises an
  assertion error whose message names the category and the two counts of the first
  violated check, and \<open>AnalyseGO\<close> returns no results.
\<close>

theorem inconsistent_counts_fail:
  assumes "GetGOFrequencies gene2go
             (if genes_background = PyTuple [] then dict_keys gene2go
              else seq_items genes_background) = (bt, bc, bg)"
    and "GetGOFrequencies gene2go genes = (st, sc, sg)"
    and "map_of bc go_id = Some n0"
    and "n0 < dict_get sc go_id 0 \<or> int (length bg) < n0 \<or> int (length sg) < dict_get sc go_id 0"
  shows "UpdateProbabilities (category_result go_id sc sg bg bc) =
           Inl (AssertionError
             (if n0 < dict_get sc go_id 0 then
                go_id @ '': more counts in foreground ('' @ show_int (dict_get sc go_id 0)
                  @ '') than in the background ('' @ show_int n0
                  @ '') - make sure the foreground is part of the background.''
              else if int (length bg) < n0 then
                go_id @ '': background: more counts in category ('' @ show_int n0
                  @ '') than in total ('' @ show_int (int (length bg)) @ '').''
              else
                go_id @ '': forerground: more counts in category (''
                  @ show_int (dict_get sc go_id 0)
                  @ '') than in total ('' @ show_int (int (length sg)) @ '').''))
       \<and> (\<exists>e. AnalyseGO gene2go genes genes_background True = Inl e)"
proof -
  from assms(3) have key: "go_id \<in> set (dict_keys bc)"
    by (auto simp: dict_keys_def dest: map_of_SomeD intro: rev_image_eqI)
  have nz: "bg \<noteq> []"
    using GetGOFrequencies_found [OF assms(1) key] .
  have up: "UpdateProbabilities (category_result go_id sc sg bg bc) =
           Inl (AssertionError
             (if n0 < dict_get sc go_id 0 then
                go_id @ '': more counts in foreground ('' @ show_int (dict_get sc go_id 0)
                  @ '') than in the background ('' @ show_int n0
                  @ '') - make sure the foreground is part of the background.''
              else if int (length bg) < n0 then
                go_id @ '': background: more counts in category ('' @ show_int n0
                  @ '') than in total ('' @ show_int (int (length bg)) @ '').''
              else
                go_id @ '': forerground: more counts in category (''
                  @ show_int (dict_get sc go_id 0)
                  @ '') than in total ('' @ show_int (int (length sg)) @ '').''))"
    using assms(3,4) nz
    by (auto simp: UpdateProbabilities_def category_result_def new_GOResult_def
        msg_foreground_def msg_background_def msg_sample_def dict_get_def)
  from AnalyseGO_loop_fails [OF key up]
  have "\<exists>e. AnalyseGO_loop True sc sg bg bc (dict_keys bc) [] = Inl e" .
  then have "\<exists>e. AnalyseGO gene2go genes genes_background True = Inl e"
    using assms(1,2) by (auto simp: AnalyseGO_def Let_def)
  with up show ?thesis by blast
qed

lemma show_int_1: "show_int 1 = ''1''"
  by (simp add: show_int_def digit_char_def)

lemma show_int_2: "show_int 2 = ''2''"
  by (simp add: show_int_def digit_char_def)

theorem inconsistent_counts_fail_witness:
  "GetGOFrequencies [(''g1'', [cat_A]), (''g2'', [cat_A])] [''g1'']
      = (1, [(''A'', 1)], [(''g1'', 1)])
   \<and> GetGOFrequencies [(''g1'', [cat_A]), (''g2'', [cat_A])] [''g1'', ''g2'']
      = (2, [(''A'', 2)], [(''g1'', 1), (''g2'', 1)])
   \<and> map_of [(''A'', 1::int)] ''A'' = Some 1
   \<and> (1::int) < dict_get [(''A'', 2)] ''A'' 0
   \<and> UpdateProbabilities
        (category_result ''A'' [(''A'', 2)] [(''g1'', 1), (''g2'', 1)] [(''g1'', 1)] [(''A'', 1)])
      = Inl (AssertionError
          ''A: more counts in foreground (2) than in the background (1) - make sure the foreground is part of the background.'')
   \<and> (\<exists>e. AnalyseGO [(''g1'', [cat_A]), (''g2'', [cat_A])] [''g1'', ''g2''] (PyList [''g1'']) True
           = Inl e)"
proof -
  let ?g = "[(''g1'', [cat_A]), (''g2'', [cat_A])]"
  have bg: "GetGOFrequencies ?g
      (if PyList [''g1''] = PyTuple [] then dict_keys ?g else seq_items (PyList [''g1'']))
      = (1, [(''A'', 1)], [(''g1'', 1)])"
    by (simp add: GetGOFrequencies_def cat_A_def dict_keys_def dict_get_def)
  have sg: "GetGOFrequencies ?g [''g1'', ''g2''] = (2, [(''A'', 2)], [(''g1'', 1), (''g2'', 1)])"
    by (simp add: GetGOFrequencies_def cat_A_def dict_keys_def dict_get_def)
  have a: "map_of [(''A'', 1::int)] ''A'' = Some 1" by simp
  have v: "(1::int) < dict_get [(''A'', 2)] ''A'' 0 \<or> int (length [(''g1'', 1::int)]) < 1
            \<or> int (length [(''g1'', 1::int), (''g2'', 1)]) < dict_get [(''A'', 2)] ''A'' 0"
    by (simp add: dict_get_def)
  from inconsistent_counts_fail [OF bg sg a v] bg sg show ?thesis
    by (simp add: dict_get_def show_int_1 show_int_2)
qed

text \<open>
  Claim C10. For a float ratio \<open>x\<close>, \<open>GetCode\<close> answers \<^verbatim>\<open>+\<close> exactly when \<open>x > 1\<close>,
  \<^verbatim>\<open>-\<close> exactly when \<open>x < 1\<close> and \<^verbatim>\<open>?\<close> exactly when \<open>x = 1\<close>; for a string ratio it
  answers \<^verbatim>\<open>+\<close>, since a string compares greater than every float. A successful
  \<open>UpdateProbabilities\<close> stores the string \<^verbatim>\<open>"na"\<close> when the sample total or the
  background count of the category is zero, and such a result is coded \<^verbatim>\<open>+\<close>;
  otherwise it stores the float ratio of the two proportions.
\<close>

theorem GetCode_ratio:
  "(mRatio v = Some (PyFloat x) \<longrightarrow>
      (GetCode v = Inr ''+'') = (x > 1)
    \<and> (GetCode v = Inr ''-'') = (x < 1)
    \<and> (GetCode v = Inr ''?'') = (x = 1))
   \<and> (mRatio v = Some (PyStr s) \<longrightarrow> GetCode v = Inr ''+'')
   \<and> (UpdateProbabilities self = Inr v \<and> GOResult.mBackgroundCountsTotal self \<noteq> 0 \<longrightarrow>
        (if GOResult.mSampleCountsTotal self = 0 \<or> mBackgroundCountsCategory self = 0
         then mRatio v = Some (PyStr ''na'') \<and> GetCode v = Inr ''+''
         else mRatio v = Some (PyFloat
                (real_of_int (mSampleCountsCategory self)
                   * real_of_int (GOResult.mBackgroundCountsTotal self)
                   / real_of_int (GOResult.mSampleCountsTotal self)
                   / real_of_int (mBackgroundCountsCategory self)))))"
proof (intro conjI impI)
  assume "mRatio v = Some (PyFloat x)"
  then show "(GetCode v = Inr ''+'') = (x > 1)"
    and "(GetCode v = Inr ''-'') = (x < 1)"
    and "(GetCode v = Inr ''?'') = (x = 1)"
    by (auto simp: GetCode_def)
next
  assume "mRatio v = Some (PyStr s)"
  then show "GetCode v = Inr ''+''" by (simp add: GetCode_def)
next
  assume a: "UpdateProbabilities self = Inr v \<and> GOResult.mBackgroundCountsTotal self \<noteq> 0"
  then have r: "mRatio v = Some
      (if GOResult.mSampleCountsTotal self = 0 \<or> mBackgroundCountsCategory self = 0
       then PyStr ''na''
       else PyFloat (real_of_int (mSampleCountsCategory self)
                       * real_of_int (GOResult.mBackgroundCountsTotal self)
                       / real_of_int (GOResult.mSampleCountsTotal self)
                       / real_of_int (mBackgroundCountsCategory self)))"
    unfolding UpdateProbabilities_def
    by (auto split: if_splits sum.splits)
  show "if GOResult.mSampleCountsTotal self = 0 \<or> mBackgroundCountsCategory self = 0
        then mRatio v = Some (PyStr ''na'') \<and> GetCode v = Inr ''+''
        else mRatio v = Some (PyFloat
               (real_of_int (mSampleCountsCategory self)
                  * real_of_int (GOResult.mBackgroundCountsTotal self)
                  / real_of_int (GOResult.mSampleCountsTotal self)
                  / real_of_int (mBackgroundCountsCategory self)))"
  proof (cases "GOResult.mSampleCountsTotal self = 0 \<or> mBackgroundCountsCategory self = 0")
    case True
    with r have "mRatio v = Some (PyStr ''na'')" by simp
    with True show ?thesis by (simp add: GetCode_def)
  next
    case False
    with r show ?thesis by simp
  qed
qed

theorem GetCode_ratio_witness:
  "mRatio ((new_GOResult ''A'')\<lparr> mRatio := Some (PyFloat 2) \<rparr>) = Some (PyFloat 2)
   \<and> GetCode ((new_GOResult ''A'')\<lparr> mRatio := Some (PyFloat 2) \<rparr>) = Inr ''+''
   \<and> mRatio ((new_GOResult ''A'')\<lparr> mRatio := Some (PyFloat (1 / 2)) \<rparr>) = Some (PyFloat (1 / 2))
   \<and> GetCode ((new_GOResult ''A'')\<lparr> mRatio := Some (PyFloat (1 / 2)) \<rparr>) = Inr ''-''
   \<and> mRatio ((new_GOResult ''A'')\<lparr> mRatio := Some (PyFloat 1) \<rparr>) = Some (PyFloat 1)
   \<and> GetCode ((new_GOResult ''A'')\<lparr> mRatio := Some (PyFloat 1) \<rparr>) = Inr ''?''
   \<and> mRatio ((new_GOResult ''A'')\<lparr> mRatio := Some (PyStr ''na'') \<rparr>) = Some (PyStr ''na'')
   \<and> GetCode ((new_GOResult ''A'')\<lparr> mRatio := Some (PyStr ''na'') \<rparr>) = Inr ''+''
   \<and> UpdateProbabilities ((new_GOResult ''A'')\<lparr> GOResult.mBackgroundCountsTotal := 1,
                                                mBackgroundCountsCategory := 1 \<rparr>)
      = Inr ((new_GOResult ''A'')\<lparr> GOResult.mBackgroundCountsTotal := 1,
                                    mBackgroundCountsCategory := 1,
                                    mProbabilityOverRepresentation := 1,
                                    mProbabilityUnderRepresentation := 1,
                                    mRatio := Some (PyStr ''na'') \<rparr>)
   \<and> GOResult.mBackgroundCountsTotal
        ((new_GOResult ''A'')\<lparr> GOResult.mBackgroundCountsTotal := 1,
                                 mBackgroundCountsCategory := 1 \<rparr>) \<noteq> 0
   \<and> GOResult.mSampleCountsTotal
        ((new_GOResult ''A'')\<lparr> GOResult.mBackgroundCountsTotal := 1,
                                 mBackgroundCountsCategory := 1 \<rparr>) = 0
   \<and> GetCode ((new_GOResult ''A'')\<lparr> GOResult.mBackgroundCountsTotal := 1,
                                    mBackgroundCountsCategory := 1,
                                    mProbabilityOverRepresentation := 1,
                                    mProbabilityUnderRepresentation := 1,
                                    mRatio := Some (PyStr ''na'') \<rparr>) = Inr ''+''"
proof -
  let ?self = "(new_GOResult ''A'')\<lparr> GOResult.mBackgroundCountsTotal := 1,
                                     mBackgroundCountsCategory := 1 \<rparr>"
  let ?v = "(new_GOResult ''A'')\<lparr> GOResult.mBackgroundCountsTotal := 1,
                                    mBackgroundCountsCategory := 1,
                                    mProbabilityOverRepresentation := 1,
                                    mProbabilityUnderRepresentation := 1,
                                    mRatio := Some (PyStr ''na'') \<rparr>"
  have up: "UpdateProbabilities ?self = Inr ?v"
    by (simp add: UpdateProbabilities_def new_GOResult_def hypergeometric_P_def)
  from GetCode_ratio [where v = ?v and self = ?self and s = "''na''"]
       GetCode_ratio [where v = "(new_GOResult ''A'')\<lparr> mRatio := Some (PyFloat 2) \<rparr>" and x = 2]
       GetCode_ratio [where v = "(new_GOResult ''A'')\<lparr> mRatio := Some (PyFloat (1 / 2)) \<rparr>"
                        and x = "1 / 2"]
       GetCode_ratio [where v = "(new_GOResult ''A'')\<lparr> mRatio := Some (PyFloat 1) \<rparr>" and x = 1]
       GetCode_ratio [where v = "(new_GOResult ''A'')\<lparr> mRatio := Some (PyStr ''na'') \<rparr>"
                        and s = "''na''"]
       up
  show ?thesis by (simp add: new_GOResult_def)
qed

section \<open>Null-distribution sampler\<close>

text \<open>
  \<^verbatim>\<open>GOSample\<close> holds the statistics of one category over all repetitions.
  \<open>min_pvalue\<close> is \<^verbatim>\<open>min(v.mProbabilityUnderRepresentation, v.mProbabilityOverRepresentation)\<close>.
  The accumulator of the sampling loop is the three dictionaries \<^verbatim>\<open>counts\<close>,
  \<^verbatim>\<open>prob_overs\<close>, \<^verbatim>\<open>prob_unders\<close> and the list \<^verbatim>\<open>simulation_min_pvalues\<close>.
\<close>

record GOSample =
  mMin :: int
  mMax :: int
  mMean :: real
  mStddev :: real
  mProbabilitiesOverRepresentation :: "real list"
  mProbabilitiesUnderRepresentation :: "real list"
  mCounts :: "int list"

definition min_pvalue :: "GOResult \<Rightarrow> real" where
  "min_pvalue v = min (mProbabilityUnderRepresentation v) (mProbabilityOverRepresentation v)"

type_synonym sample_acc =
  "(string, int list) dict \<times> (string, real list) dict \<times> (string, real list) dict \<times> real list"

text \<open>
  \<open>record_pair\<close> is the body of the loop \<^verbatim>\<open>for k, v in pairs\<close> of \<^verbatim>\<open>getSamples\<close>,
  \<open>record_pairs\<close> the loop. The reads \<^verbatim>\<open>counts[k]\<close> follow the insertion of the key, so
  their default is never used.
\<close>

fun record_pair :: "string \<times> GOResult \<Rightarrow> sample_acc \<Rightarrow> sample_acc" where
  "record_pair (k, v) (counts, prob_overs, prob_unders, simulation_min_pvalues) =
     (let (counts1, prob_overs1, prob_unders1) =
            (if k \<notin> set (dict_keys counts)
             then (dict_set counts k [], dict_set prob_overs k [], dict_set prob_unders k [])
             else (counts, prob_overs, prob_unders));
          counts2 = dict_set counts1 k (dict_get counts1 k [] @ [mSampleCountsCategory v]);
          prob_overs2 =
            dict_set prob_overs1 k (dict_get prob_overs1 k [] @ [mProbabilityOverRepresentation v]);
          prob_unders2 =
            dict_set prob_unders1 k (dict_get prob_unders1 k [] @ [mProbabilityUnderRepresentation v])
      in (counts2, prob_overs2, prob_unders2, simulation_min_pvalues @ [min_pvalue v]))"

fun record_pairs :: "(string \<times> GOResult) list \<Rightarrow> sample_acc \<Rightarrow> sample_acc" where
  "record_pairs [] acc = acc"
| "record_pairs (pair # pairs) acc = record_pairs pairs (record_pair pair acc)"

text \<open>
  \<open>sample_loop\<close> is the loop \<^verbatim>\<open>for x in range(sample_size)\<close>. Two things are
  parameters. \<open>random_sample\<close> stands for \<^verbatim>\<open>random.sample\<close> of the standard library, which
  reads and advances the state of the global generator: it maps a generator state, a
  population and a size to the drawn list and the next state; the loop threads the state.
  The library raises \<^verbatim>\<open>ValueError\<close> when the size exceeds the population. \<open>items\<close> is the
  order in which \<^verbatim>\<open>go_results.mResults.items()\<close> yields the entries of the dictionary, which
  Python 2 leaves unspecified.
\<close>

fun sample_loop ::
  "('g \<Rightarrow> string list \<Rightarrow> nat \<Rightarrow> string list \<times> 'g)
     \<Rightarrow> ((string \<times> GOResult) list \<Rightarrow> (string \<times> GOResult) list)
     \<Rightarrow> gene2go \<Rightarrow> string list \<Rightarrow> string pyseq \<Rightarrow> nat \<Rightarrow> 'g \<Rightarrow> sample_acc
     \<Rightarrow> error + sample_acc \<times> 'g" where
  "sample_loop random_sample items gene2go genes background 0 rng acc = Inr (acc, rng)"
| "sample_loop random_sample items gene2go genes background (Suc n) rng acc =
     (if length genes > length (seq_items background)
      then Inl (ValueError ''sample larger than population'')
      else
        (let (sample_genes, rng') = random_sample rng (seq_items background) (length genes) in
         case AnalyseGO gene2go sample_genes background True of
           Inl e \<Rightarrow> Inl e
         | Inr go_results \<Rightarrow>
             sample_loop random_sample items gene2go genes background n rng'
               (record_pairs (items (mResults go_results)) acc)))"

text \<open>
  \<^verbatim>\<open>scipy.mean\<close> and \<^verbatim>\<open>numpy.std\<close> (the population standard deviation) of a list of
  counts; \<open>make_sample\<close> builds the \<^verbatim>\<open>GOSample\<close> of one category (\<^verbatim>\<open>min\<close> of an empty
  list raises); \<open>build_samples\<close> is the loop \<^verbatim>\<open>for k in counts.keys()\<close>. \<open>getSamples\<close>
  returns the samples, the sorted pooled list of minimum p-values and the state of the
  generator. The lines it writes to the samples table are \<open>getSamples_sections\<close> below.
\<close>

definition mean :: "int list \<Rightarrow> real" where
  "mean c = real_of_int (sum_list c) / real (length c)"

definition std :: "int list \<Rightarrow> real" where
  "std c = sqrt (sum_list (map (\<lambda>x. (real_of_int x - mean c)\<^sup>2) c) / real (length c))"

definition make_sample :: "int list \<Rightarrow> real list \<Rightarrow> real list \<Rightarrow> error + GOSample" where
  "make_sample c prob_overs_k prob_unders_k =
     (case c of
        [] \<Rightarrow> Inl (ValueError ''min() arg is an empty sequence'')
      | x # xs \<Rightarrow>
          Inr \<lparr> mMin = fold min xs x,
                mMax = fold max xs x,
                mMean = mean c,
                mStddev = std c,
                mProbabilitiesOverRepresentation = sort prob_overs_k,
                mProbabilitiesUnderRepresentation = sort prob_unders_k,
                mCounts = c \<rparr>)"

fun build_samples ::
  "(string, int list) dict \<Rightarrow> (string, real list) dict \<Rightarrow> (string, real list) dict
     \<Rightarrow> string list \<Rightarrow> (string, GOSample) dict \<Rightarrow> error + (string, GOSample) dict" where
  "build_samples counts prob_overs prob_unders [] samples = Inr samples"
| "build_samples counts prob_overs prob_unders (k # ks) samples =
     (case make_sample (dict_get counts k []) (dict_get prob_overs k []) (dict_get prob_unders k []) of
        Inl e \<Rightarrow> Inl e
      | Inr s \<Rightarrow> build_samples counts prob_overs prob_unders ks (dict_set samples k s))"

definition getSamples ::
  "('g \<Rightarrow> string list \<Rightarrow> nat \<Rightarrow> string list \<times> 'g)
     \<Rightarrow> ((string \<times> GOResult) list \<Rightarrow> (string \<times> GOResult) list)
     \<Rightarrow> gene2go \<Rightarrow> string list \<Rightarrow> string pyseq \<Rightarrow> int \<Rightarrow> 'g
     \<Rightarrow> error + ((string, GOSample) dict \<times> real list) \<times> 'g" where
  "getSamples random_sample items gene2go genes background sample_size rng =
     (case sample_loop random_sample items gene2go genes background (nat sample_size) rng
             ([], [], [], []) of
        Inl e \<Rightarrow> Inl e
      | Inr ((counts, prob_overs, prob_unders, simulation_min_pvalues), rng') \<Rightarrow>
          (case build_samples counts prob_overs prob_unders (dict_keys counts) [] of
             Inl e \<Rightarrow> Inl e
           | Inr samples \<Rightarrow> Inr ((samples, sort simulation_min_pvalues), rng')))"

text \<open>
  Two outcomes of the sampler agree when both raise the same exception, or both return
  the same generator state, the same pooled list, and dictionaries that hold the same
  sample for every category.
\<close>

definition same_samples ::
  "error + ((string, GOSample) dict \<times> real list) \<times> 'g
     \<Rightarrow> error + ((string, GOSample) dict \<times> real list) \<times> 'g \<Rightarrow> bool" where
  "same_samples run1 run2 =
     (case run1 of
        Inl e1 \<Rightarrow> run2 = Inl e1
      | Inr ((samples1, pvalues1), rng1) \<Rightarrow>
          (case run2 of
             Inl e2 \<Rightarrow> False
           | Inr ((samples2, pvalues2), rng2) \<Rightarrow>
               map_of samples1 = map_of samples2 \<and> pvalues1 = pvalues2 \<and> rng1 = rng2))"

text \<open>
  The accumulator read as three maps and a multiset, and the loop body on that reading;
  \<open>sample_for\<close> is the sample the final loop builds for one key.
\<close>

definition acc_view ::
  "sample_acc \<Rightarrow> (string \<rightharpoonup> int list) \<times> (string \<rightharpoonup> real list) \<times> (string \<rightharpoonup> real list)
     \<times> real multiset" where
  "acc_view acc = (case acc of (counts, prob_overs, prob_unders, sim) \<Rightarrow>
     (map_of counts, map_of prob_overs, map_of prob_unders, mset sim))"

definition view_append :: "('k \<rightharpoonup> 'a list) \<Rightarrow> bool \<Rightarrow> 'k \<Rightarrow> 'a \<Rightarrow> ('k \<rightharpoonup> 'a list)" where
  "view_append m fresh k x =
     m(k \<mapsto> (if fresh then [] else (case m k of None \<Rightarrow> [] | Some l \<Rightarrow> l)) @ [x])"

definition view_pair ::
  "string \<times> GOResult
     \<Rightarrow> (string \<rightharpoonup> int list) \<times> (string \<rightharpoonup> real list) \<times> (string \<rightharpoonup> real list) \<times> real multiset
     \<Rightarrow> (string \<rightharpoonup> int list) \<times> (string \<rightharpoonup> real list) \<times> (string \<rightharpoonup> real list) \<times> real multiset" where
  "view_pair p a = (case (p, a) of ((k, v), (mc, mo, mu, ms)) \<Rightarrow>
     (view_append mc (k \<notin> dom mc) k (mSampleCountsCategory v),
      view_append mo (k \<notin> dom mc) k (mProbabilityOverRepresentation v),
      view_append mu (k \<notin> dom mc) k (mProbabilityUnderRepresentation v),
      ms + {#min_pvalue v#}))"

definition sample_for ::
  "(string, int list) dict \<Rightarrow> (string, real list) dict \<Rightarrow> (string, real list) dict
     \<Rightarrow> string \<Rightarrow> error + GOSample" where
  "sample_for counts prob_overs prob_unders k =
     make_sample (dict_get counts k []) (dict_get prob_overs k []) (dict_get prob_unders k [])"

section \<open>FDR estimator\<close>

text \<open>
  \<open>count_below xs pvalue a\<close> is the loop
  \<^verbatim>\<open>while a < len(xs) and xs[a] < pvalue: a += 1\<close>. \<open>sampling_fdr\<close> is the computation
  of \<^verbatim>\<open>(fdr, a, b)\<close> for one category; \<open>fdr_loop\<close> is the loop over the observed pairs,
  which raises \<^verbatim>\<open>KeyError\<close> for a category without samples (the z-score the loop also
  computes is never used). With \<^verbatim>\<open>options.sample == 0\<close> the q-values come from
  \<^verbatim>\<open>Stats.doFDR\<close>, a module outside the sources: \<open>doFDR\<close> is a parameter.
\<close>

function count_below :: "real list \<Rightarrow> real \<Rightarrow> nat \<Rightarrow> nat" where
  "count_below xs pvalue a =
     (if a < length xs \<and> xs ! a < pvalue then count_below xs pvalue (Suc a) else a)"
  by pat_completeness auto

termination
  by (relation "measure (\<lambda>(xs, pvalue, a). length xs - a)") auto

declare count_below.simps [simp del]

definition sampling_fdr :: "real list \<Rightarrow> real list \<Rightarrow> int \<Rightarrow> real \<Rightarrow> real \<times> real \<times> nat" where
  "sampling_fdr simulation_min_pvalues observed_min_pvalues sample_size pvalue =
     (let a = real (count_below simulation_min_pvalues pvalue 0) / real_of_int sample_size;
          b = count_below observed_min_pvalues pvalue 0
      in (if b > 0 then min 1 (a / real b) else 1, a, b))"

fun fdr_loop ::
  "(string, GOSample) dict \<Rightarrow> real list \<Rightarrow> real list \<Rightarrow> int \<Rightarrow> (string \<times> GOResult) list
     \<Rightarrow> (string, real \<times> real \<times> nat) dict \<Rightarrow> error + (string, real \<times> real \<times> nat) dict" where
  "fdr_loop samples simulation_min_pvalues observed_min_pvalues sample_size [] fdrs = Inr fdrs"
| "fdr_loop samples simulation_min_pvalues observed_min_pvalues sample_size ((k, v) # pairs) fdrs =
     (case map_of samples k of
        None \<Rightarrow> Inl (KeyError (''category '' @ k @ '' not in samples''))
      | Some s \<Rightarrow>
          fdr_loop samples simulation_min_pvalues observed_min_pvalues sample_size pairs
            (dict_set fdrs k
               (sampling_fdr simulation_min_pvalues observed_min_pvalues sample_size
                  (min (mProbabilityOverRepresentation v) (mProbabilityUnderRepresentation v)))))"

fun storey_fdrs ::
  "(string \<times> GOResult) list \<Rightarrow> real list \<Rightarrow> (string, real \<times> real \<times> nat) dict
     \<Rightarrow> (string, real \<times> real \<times> nat) dict" where
  "storey_fdrs ((k, v) # pairs) (qvalue # qvalues) fdrs =
     storey_fdrs pairs qvalues (dict_set fdrs k (qvalue, 1, 1))"
| "storey_fdrs pairs qvalues fdrs = fdrs"

definition calculate_fdrs ::
  "(real list \<Rightarrow> real list) \<Rightarrow> (string, GOSample) dict \<Rightarrow> real list \<Rightarrow> int
     \<Rightarrow> (string \<times> GOResult) list \<Rightarrow> error + (string, real \<times> real \<times> nat) dict" where
  "calculate_fdrs doFDR samples simulation_min_pvalues sample_size pairs =
     (let observed_min_pvalues =
            map (\<lambda>x. min (mProbabilityOverRepresentation (snd x))
                          (mProbabilityUnderRepresentation (snd x))) pairs
      in if sample_size = 0
         then Inr (storey_fdrs pairs (doFDR observed_min_pvalues) [])
         else fdr_loop samples simulation_min_pvalues (sort observed_min_pvalues) sample_size
                pairs [])"

section \<open>The analysis run\<close>

text \<open>
  The part of the main program that is modelled: input from a flat file, no GO slims,
  no gene dump. \<open>reconcile_background\<close> is the reconciliation of foreground and
  background; it returns the warnings it logs and the background or the exception.
  \<^verbatim>\<open>missing\<close> is a Python set: the order of \<open>missing_genes\<close> is one of its orders. The
  text of the assertion message lists the genes separated by blanks instead of
  \<^verbatim>\<open>str(missing)\<close>; the text of the \<^verbatim>\<open>AttributeError\<close> is written without quotes.
\<close>

datatype sort_choice = SortFdr | SortRatio | SortPover

record options =
  strict :: bool
  sample :: int
  fdr :: bool
  threshold :: real
  sort_order :: sort_choice

definition missing_genes :: "string list \<Rightarrow> string list \<Rightarrow> string list" where
  "missing_genes genes background = remdups (filter (\<lambda>g. g \<notin> set background) genes)"

definition reconcile_background ::
  "bool \<Rightarrow> string list \<Rightarrow> string list option \<Rightarrow> gene2go \<Rightarrow> string list \<times> (error + string pyseq)" where
  "reconcile_background strict_mode genes input_background gene2go =
     (let background =
            (case input_background of
               None \<Rightarrow> PyTuple (dict_keys gene2go)
             | Some b \<Rightarrow> PyList b);
          missing = missing_genes genes (seq_items background)
      in if strict_mode then
           ([],
            if length missing = 0 then Inr background
            else Inl (AssertionError
                   (show_int (int (length missing))
                      @ '' genes in foreground but not in background: ''
                      @ concat (map (\<lambda>g. g @ '' '') missing))))
         else
           (if length missing \<noteq> 0
            then [show_int (int (length missing))
                    @ '' genes in foreground that are not in background - added to background of ''
                    @ show_int (int (length (seq_items background)))]
            else [],
            seq_extend background missing))"

subsection \<open>What the run writes\<close>

text \<open>
  What one pass writes is kept as a list of write events, one constructor for each kind
  of write statement. The text of a line is not built (the number formats,
  \<^verbatim>\<open>IOTools.prettyPercent\<close>, \<^verbatim>\<open>IOTools.prettyFloat\<close> and the median and percentiles of
  \<^verbatim>\<open>scipy\<close> are outside the sources): an event carries the values the line is formatted
  from. A \<^typ>\<open>GOInfo option\<close> is the entry of \<^verbatim>\<open>go2info\<close> for the category, \<open>None\<close> when
  there is none (the samples table then prints \<^verbatim>\<open>?\<close>, the other tables empty fields).
  A section is one table of one namespace: its namespace, its name (\<^verbatim>\<open>samples\<close>,
  \<^verbatim>\<open>results\<close>, \<^verbatim>\<open>overall\<close>, \<^verbatim>\<open>parameters\<close>, \<^verbatim>\<open>fg\<close>) and its events; with an output
  pattern a section is a file, without one all sections go to the standard output in
  this order. The messages of the log and the diagnostics that \<^verbatim>\<open>AnalyseGO\<close> prints before
  it exits are not events.
\<close>

datatype output_event =
    WriteHeader "string list"
  | WriteSample string GOSample "GOInfo option"
  | WriteResult string GOResult "GOInfo option"
  | WriteFdr real
  | WriteStats GOSample real
  | WriteNewline
  | WriteTitle string
  | WriteCount int string
  | WritePercent int int string
  | WriteThreshold real
  | WriteForeground string GOResult "GOInfo option" "string list"

type_synonym output_section = "string \<times> string \<times> output_event list"

type_synonym go2info = "(string, GOInfo) dict"

text \<open>
  The table of \<^verbatim>\<open>getSamples\<close>. The file is opened after the sampling loop, so a failure
  in the loop leaves no section. The header is written in every case, also for a sample
  size of zero; a row is written after the sample of its category is built, so the rows
  end where \<open>make_sample\<close> fails.
\<close>

definition samples_header :: "string list" where
  "samples_header = [''goid'', ''min'', ''max'', ''mean'', ''median'', ''stddev'',
                     ''CI95lower'', ''CI95upper'', ''pover'', ''punder'', ''goid'',
                     ''category'', ''description'']"

fun samples_rows ::
  "go2info \<Rightarrow> (string, int list) dict \<Rightarrow> (string, real list) dict \<Rightarrow> (string, real list) dict
     \<Rightarrow> string list \<Rightarrow> output_event list" where
  "samples_rows go2info counts prob_overs prob_unders [] = []"
| "samples_rows go2info counts prob_overs prob_unders (k # ks) =
     (case make_sample (dict_get counts k []) (dict_get prob_overs k []) (dict_get prob_unders k []) of
        Inl e \<Rightarrow> []
      | Inr s \<Rightarrow>
          WriteSample k s (map_of go2info k)
            # samples_rows go2info counts prob_overs prob_unders ks)"

definition getSamples_sections ::
  "('g \<Rightarrow> string list \<Rightarrow> nat \<Rightarrow> string list \<times> 'g)
     \<Rightarrow> ((string \<times> GOResult) list \<Rightarrow> (string \<times> GOResult) list)
     \<Rightarrow> string \<Rightarrow> go2info \<Rightarrow> gene2go \<Rightarrow> string list \<Rightarrow> string pyseq \<Rightarrow> int \<Rightarrow> 'g
     \<Rightarrow> output_section list" where
  "getSamples_sections random_sample items ontology go2info gene2go genes background sample_size rng =
     (case sample_loop random_sample items gene2go genes background (nat sample_size) rng
             ([], [], [], []) of
        Inl e \<Rightarrow> []
      | Inr ((counts, prob_overs, prob_unders, simulation_min_pvalues), rng') \<Rightarrow>
          [(ontology, ''samples'',
            WriteHeader samples_header
              # samples_rows go2info counts prob_overs prob_unders (dict_keys counts))])"

text \<open>
  The sort of the pairs. \<^verbatim>\<open>list.sort\<close> with a comparison function is stable:
  \<open>stable_sort le\<close> is the insertion sort that keeps the order of equal elements, with
  \<open>le x y\<close> for \<^verbatim>\<open>cmp(x, y) <= 0\<close>. Python 2 compares tuples lexicographically, puts
  every float below every string and compares strings by character code. A list of
  fewer than two pairs is not compared at all; on a longer list the first comparison of
  the library is \<^verbatim>\<open>cmp\<close> of the second pair with the first, so a missing FDR or a missing
  ratio raises there. When only some of the pairs lack the entry, the library may meet
  another of them first than \<open>comparison_order\<close> does: the exception is the same, the
  key it names may differ.
\<close>

fun insert_sorted :: "('a \<Rightarrow> 'a \<Rightarrow> bool) \<Rightarrow> 'a \<Rightarrow> 'a list \<Rightarrow> 'a list" where
  "insert_sorted le x [] = [x]"
| "insert_sorted le x (y # ys) = (if le x y then x # y # ys else y # insert_sorted le x ys)"

definition stable_sort :: "('a \<Rightarrow> 'a \<Rightarrow> bool) \<Rightarrow> 'a list \<Rightarrow> 'a list" where
  "stable_sort le xs = foldr (insert_sorted le) xs []"

fun str_le :: "string \<Rightarrow> string \<Rightarrow> bool" where
  "str_le [] u = True"
| "str_le (c # s) [] = False"
| "str_le (c # s) (d # u) =
     ((of_char c :: nat) < of_char d \<or> (c = d \<and> str_le s u))"

fun pyval_le :: "pyval \<Rightarrow> pyval \<Rightarrow> bool" where
  "pyval_le (PyFloat x) (PyFloat y) = (x \<le> y)"
| "pyval_le (PyFloat x) (PyStr u) = True"
| "pyval_le (PyStr s) (PyFloat y) = False"
| "pyval_le (PyStr s) (PyStr u) = str_le s u"

fun fdr_le :: "real \<times> real \<times> nat \<Rightarrow> real \<times> real \<times> nat \<Rightarrow> bool" where
  "fdr_le (f1, a1, b1) (f2, a2, b2) =
     (f1 < f2 \<or> (f1 = f2 \<and> (a1 < a2 \<or> (a1 = a2 \<and> b1 \<le> b2))))"

definition comparison_order :: "'a list \<Rightarrow> 'a list" where
  "comparison_order xs = (case xs of x # y # rest \<Rightarrow> y # x # rest | _ \<Rightarrow> [])"

definition sort_pairs ::
  "options \<Rightarrow> (string, real \<times> real \<times> nat) dict \<Rightarrow> (string \<times> GOResult) list
     \<Rightarrow> error + (string \<times> GOResult) list" where
  "sort_pairs opts fdrs pairs =
     (case sort_order opts of
        SortFdr \<Rightarrow>
          (case find (\<lambda>x. map_of fdrs (fst x) = None) (comparison_order pairs) of
             Some x \<Rightarrow> Inl (KeyError (fst x))
           | None \<Rightarrow>
               Inr (stable_sort
                      (\<lambda>x y. fdr_le (dict_get fdrs (fst x) (0, 0, 0))
                                       (dict_get fdrs (fst y) (0, 0, 0))) pairs))
      | SortRatio \<Rightarrow>
          (case find (\<lambda>x. mRatio (snd x) = None) (comparison_order pairs) of
             Some x \<Rightarrow> Inl (AttributeError ''GOResult instance has no attribute mRatio'')
           | None \<Rightarrow>
               Inr (stable_sort
                      (\<lambda>x y. case (mRatio (snd x), mRatio (snd y)) of
                                (Some rx, Some ry) \<Rightarrow> pyval_le rx ry
                              | _ \<Rightarrow> True) pairs))
      | SortPover \<Rightarrow>
          Inr (stable_sort
                 (\<lambda>x y. mProbabilityOverRepresentation (snd x)
                            \<le> mProbabilityOverRepresentation (snd y)) pairs))"

text \<open>
  The loop that selects the pairs below the threshold: by the FDR with
  \<^verbatim>\<open>options.fdr\<close> (the read \<^verbatim>\<open>fdrs[k]\<close> raises for a missing key), by the smaller of the
  two probabilities otherwise.
\<close>

fun filter_pairs ::
  "options \<Rightarrow> (string, real \<times> real \<times> nat) dict \<Rightarrow> (string \<times> GOResult) list
     \<Rightarrow> (string \<times> GOResult) list \<Rightarrow> error + (string \<times> GOResult) list" where
  "filter_pairs opts fdrs [] filtered_pairs = Inr filtered_pairs"
| "filter_pairs opts fdrs ((k, v) # pairs) filtered_pairs =
     (let pvalue = min (mProbabilityOverRepresentation v) (mProbabilityUnderRepresentation v) in
      if fdr opts then
        (case map_of fdrs k of
           None \<Rightarrow> Inl (KeyError k)
         | Some (fdr_k, expfpos, pos) \<Rightarrow>
             filter_pairs opts fdrs pairs
               (if fdr_k < threshold opts then filtered_pairs @ [(k, v)] else filtered_pairs))
      else
        filter_pairs opts fdrs pairs
          (if pvalue < threshold opts then filtered_pairs @ [(k, v)] else filtered_pairs))"

text \<open>
  \<^verbatim>\<open>outputResults\<close>. \<open>outputResults_loop\<close> is the loop over the pairs; it returns the
  events written and the exception that ended it, if any. Its last argument is the local
  variable \<^verbatim>\<open>s\<close>, unbound before the first category with samples and left at its last
  value by a category without. With \<^verbatim>\<open>options.sample\<close> the loop reads the local variable
  \<^verbatim>\<open>fdr\<close>, which is bound only with \<^verbatim>\<open>options.fdr\<close>. The percentiles of the counts are
  not computed; what the library does with an empty list of counts is not modelled (no
  sample built by \<open>make_sample\<close> has one). The texts of the two
  \<^verbatim>\<open>UnboundLocalError\<close>s are written without quotes.
\<close>

definition results_header ::
  "(string, real \<times> real \<times> nat) dict \<Rightarrow> (string, GOSample) dict \<Rightarrow> string list" where
  "results_header fdrs samples =
     [''code'', ''scount'', ''stotal'', ''spercent'', ''bcount'', ''btotal'', ''bpercent'',
      ''ratio'', ''pvalue'', ''pover'', ''punder'', ''goid'', ''category'', ''description'']
     @ (if fdrs \<noteq> [] then [''fdr''] else [])
     @ (if samples \<noteq> []
        then [''min'', ''max'', ''zscore'', ''mpover'', ''mpunder'', ''nfdr_expected'',
              ''CI95lower'', ''CI95upper'']
        else [])"

fun outputResults_loop ::
  "options \<Rightarrow> go2info \<Rightarrow> (string, real \<times> real \<times> nat) dict \<Rightarrow> (string, GOSample) dict
     \<Rightarrow> (string \<times> GOResult) list \<Rightarrow> GOSample option \<Rightarrow> output_event list \<times> error option" where
  "outputResults_loop opts go2info fdrs samples [] s = ([], None)"
| "outputResults_loop opts go2info fdrs samples ((k, v) # pairs) s =
     (case GetCode v of
        Inl e \<Rightarrow> ([], Some e)
      | Inr code \<Rightarrow>
          (let w1 = [WriteResult code v (map_of go2info k)] in
           case (if fdr opts
                 then (case map_of fdrs k of
                         None \<Rightarrow> Inl (KeyError k)
                       | Some (fdr_k, expfpos, pos) \<Rightarrow> Inr [WriteFdr fdr_k])
                 else Inr []) of
             Inl e \<Rightarrow> (w1, Some e)
           | Inr w2 \<Rightarrow>
               if sample opts \<noteq> 0 then
                 (let (s', w3) =
                        (case map_of samples k of
                           Some s_k \<Rightarrow> (Some s_k, [])
                         | None \<Rightarrow> (s, [WriteNewline]))
                  in case s' of
                       None \<Rightarrow>
                         (w1 @ w2 @ w3,
                          Some (UnboundLocalError
                                  ''local variable s referenced before assignment''))
                     | Some s_k \<Rightarrow>
                         (let zscore =
                                (if mStddev s_k > 0
                                 then \<bar>real_of_int (mSampleCountsCategory v) - mMean s_k\<bar>
                                        / mStddev s_k
                                 else 0)
                          in if \<not> fdr opts then
                               (w1 @ w2 @ w3,
                                Some (UnboundLocalError
                                        ''local variable fdr referenced before assignment''))
                             else if mProbabilitiesOverRepresentation s_k = []
                                     \<or> mProbabilitiesUnderRepresentation s_k = [] then
                               (w1 @ w2 @ w3,
                                Some (ValueError ''min() arg is an empty sequence''))
                             else
                               (let (ws, status) =
                                      outputResults_loop opts go2info fdrs samples pairs s'
                                in (w1 @ w2 @ w3 @ [WriteStats s_k zscore, WriteNewline] @ ws,
                                    status))))
               else
                 (let (ws, status) = outputResults_loop opts go2info fdrs samples pairs s
                  in (w1 @ w2 @ [WriteNewline] @ ws, status))))"

definition outputResults ::
  "options \<Rightarrow> go2info \<Rightarrow> (string, real \<times> real \<times> nat) dict \<Rightarrow> (string, GOSample) dict
     \<Rightarrow> (string \<times> GOResult) list \<Rightarrow> output_event list \<times> error option" where
  "outputResults opts go2info fdrs samples pairs =
     (let (ws, status) = outputResults_loop opts go2info fdrs samples pairs None
      in (WriteHeader (results_header fdrs samples) # ws, status))"

text \<open>
  \<^verbatim>\<open>CountGO\<close> and the parameter table. The two lines of percentages carry the two
  numbers handed to \<^verbatim>\<open>IOTools.prettyPercent\<close>.
\<close>

fun CountGO_maps :: "GOInfo list \<Rightarrow> (string, int) dict \<times> int \<Rightarrow> (string, int) dict \<times> int" where
  "CountGO_maps [] (cats, nmaps) = (cats, nmaps)"
| "CountGO_maps (v # vv) (cats, nmaps) =
     CountGO_maps vv (dict_set cats (GOInfo.mGOId v) 1, nmaps + 1)"

fun CountGO_loop :: "gene2go \<Rightarrow> (string, int) dict \<times> int \<Rightarrow> (string, int) dict \<times> int" where
  "CountGO_loop [] acc = acc"
| "CountGO_loop ((k, vv) # rest) acc = CountGO_loop rest (CountGO_maps vv acc)"

definition CountGO :: "gene2go \<Rightarrow> int \<times> int \<times> int" where
  "CountGO gene2go =
     (let (cats, nmaps) = CountGO_loop gene2go ([], 0)
      in (int (length gene2go), int (length cats), nmaps))"

definition parameters_table ::
  "options \<Rightarrow> string \<Rightarrow> gene2go \<Rightarrow> string list \<Rightarrow> string pyseq \<Rightarrow> GOResults \<Rightarrow> nat \<Rightarrow> output_event list" where
  "parameters_table opts ontology gene2go genes background go_results nselected =
     (let (ngenes, ncategories, nmaps) = CountGO gene2go;
          nbackground =
            (if length (seq_items background) = 0
             then int (length (mBackgroundGenes go_results))
             else int (length (seq_items background)))
      in [WriteTitle ontology,
          WriteHeader [''value'', ''parameter''],
          WriteCount ngenes ''mapped genes'',
          WriteCount ncategories ''mapped categories'',
          WriteCount nmaps ''mappings'',
          WriteCount (int (length genes)) ''genes in sample'',
          WriteCount (int (length (mSampleGenes go_results)))
            ''genes in sample with GO assignments'',
          WriteCount nbackground ''input background'',
          WriteCount (int (length (mBackgroundGenes go_results)))
            ''genes in background with GO assignments'',
          WriteCount (GOResults.mSampleCountsTotal go_results) ''associations in sample'',
          WriteCount (GOResults.mBackgroundCountsTotal go_results)
            ''associations in background'',
          WritePercent (int (length (mSampleGenes go_results))) (int (length genes))
            ''percent genes in sample with GO assignments'',
          WritePercent (int (length (mBackgroundGenes go_results))) nbackground
            ''percent genes background with GO assignments'',
          WriteCount (int nselected) ''significant results reported'',
          WriteThreshold (threshold opts)])"

text \<open>
  The table of the foreground genes of each category: the reverse map \<^verbatim>\<open>go2genes\<close> and
  the loop that writes one line for each pair. The list of header names the code builds
  is never written. An empty list of genes stands for the empty field of a category
  without foreground gene.
\<close>

fun go2genes_add ::
  "string \<Rightarrow> GOInfo list \<Rightarrow> (string, string list) dict \<Rightarrow> (string, string list) dict" where
  "go2genes_add gene [] go2genes = go2genes"
| "go2genes_add gene (go # gos) go2genes =
     (let go2genes1 =
            (if GOInfo.mGOId go \<notin> set (dict_keys go2genes)
             then dict_set go2genes (GOInfo.mGOId go) []
             else go2genes)
      in go2genes_add gene gos
           (dict_set go2genes1 (GOInfo.mGOId go)
              (dict_get go2genes1 (GOInfo.mGOId go) [] @ [gene])))"

fun reverse_map ::
  "gene2go \<Rightarrow> string list \<Rightarrow> (string, string list) dict \<Rightarrow> (string, string list) dict" where
  "reverse_map [] genes go2genes = go2genes"
| "reverse_map ((gene, gos) # rest) genes go2genes =
     (if gene \<notin> set genes then reverse_map rest genes go2genes
      else reverse_map rest genes (go2genes_add gene gos go2genes))"

fun fg_rows ::
  "go2info \<Rightarrow> (string, string list) dict \<Rightarrow> (string \<times> GOResult) list
     \<Rightarrow> output_event list \<times> error option" where
  "fg_rows go2info go2genes [] = ([], None)"
| "fg_rows go2info go2genes ((k, v) # pairs) =
     (case GetCode v of
        Inl e \<Rightarrow> ([], Some e)
      | Inr code \<Rightarrow>
          (let (ws, status) = fg_rows go2info go2genes pairs
           in (WriteForeground code v (map_of go2info k) (dict_get go2genes k []) # ws, status)))"

text \<open>
  \<open>output_ontology\<close> is the part of a pass after the FDRs: sort, selection, the tables
  \<^verbatim>\<open>results\<close> (the selected pairs) and \<^verbatim>\<open>overall\<close> (all pairs), the parameters and the
  foreground genes. An exception keeps what was written before it, the section it
  interrupts included.
\<close>

definition output_ontology ::
  "options \<Rightarrow> string \<Rightarrow> gene2go \<Rightarrow> go2info \<Rightarrow> string list \<Rightarrow> string pyseq \<Rightarrow> GOResults
     \<Rightarrow> (string, real \<times> real \<times> nat) dict \<Rightarrow> (string, GOSample) dict
     \<Rightarrow> (string \<times> GOResult) list \<Rightarrow> output_section list \<times> error option" where
  "output_ontology opts ontology gene2go go2info genes background go_results fdrs samples pairs =
     (case sort_pairs opts fdrs pairs of
        Inl e \<Rightarrow> ([], Some e)
      | Inr sorted_pairs \<Rightarrow>
          (case filter_pairs opts fdrs sorted_pairs [] of
             Inl e \<Rightarrow> ([], Some e)
           | Inr filtered_pairs \<Rightarrow>
               (let nselected = length filtered_pairs;
                    (results, status1) = outputResults opts go2info fdrs samples filtered_pairs
                in case status1 of
                     Some e \<Rightarrow> ([(ontology, ''results'', results)], Some e)
                   | None \<Rightarrow>
                       (let (overall, status2) =
                              outputResults opts go2info fdrs samples sorted_pairs
                        in case status2 of
                             Some e \<Rightarrow>
                               ([(ontology, ''results'', results),
                                 (ontology, ''overall'', overall)], Some e)
                           | None \<Rightarrow>
                               (let (fg, status3) =
                                      fg_rows go2info (reverse_map gene2go genes []) sorted_pairs
                                in ([(ontology, ''results'', results),
                                     (ontology, ''overall'', overall),
                                     (ontology, ''parameters'',
                                      parameters_table opts ontology gene2go genes background
                                        go_results nselected),
                                     (ontology, ''fg'', fg)], status3))))))"

subsection \<open>The loop over the namespaces\<close>

text \<open>
  \<open>analyse_ontology\<close> is one pass of the loop \<^verbatim>\<open>for ontology in options.ontology\<close>: the
  lookup of the two maps of the namespace, the reconciliation, the evaluation of the
  foreground, the exit when no foreground gene is annotated, the sampler and its table,
  the FDRs, and the output. It returns the sections written and either the exception
  that ended the pass or what the next pass starts from. A supplied background is one
  list object for the whole run, so its extension is seen by the next pass. \<open>main_loop\<close>
  returns the sections written by the run and the exception that ended it, if any.
\<close>

definition analyse_ontology ::
  "('g \<Rightarrow> string list \<Rightarrow> nat \<Rightarrow> string list \<times> 'g)
     \<Rightarrow> ((string \<times> GOResult) list \<Rightarrow> (string \<times> GOResult) list)
     \<Rightarrow> (real list \<Rightarrow> real list)
     \<Rightarrow> options \<Rightarrow> (string, gene2go) dict \<Rightarrow> (string, go2info) dict \<Rightarrow> string list
     \<Rightarrow> string list option \<Rightarrow> 'g \<Rightarrow> string
     \<Rightarrow> output_section list \<times> (error + string list option \<times> 'g)" where
  "analyse_ontology random_sample items doFDR opts gene2gos go2infos genes input_background rng
       ontology =
     (case map_of gene2gos ontology of
        None \<Rightarrow> ([], Inl (KeyError ontology))
      | Some gene2go \<Rightarrow>
          (case map_of go2infos ontology of
             None \<Rightarrow> ([], Inl (KeyError ontology))
           | Some go2info \<Rightarrow>
               (case snd (reconcile_background (strict opts) genes input_background gene2go) of
                  Inl e \<Rightarrow> ([], Inl e)
                | Inr background \<Rightarrow>
                    (case AnalyseGO gene2go genes background True of
                       Inl e \<Rightarrow> ([], Inl e)
                     | Inr go_results \<Rightarrow>
                         if length (mSampleGenes go_results) = 0 then ([], Inl (SystemExit 0))
                         else
                           (let pairs = items (mResults go_results);
                                samples_table =
                                  getSamples_sections random_sample items ontology go2info
                                    gene2go genes background (sample opts) rng
                            in case getSamples random_sample items gene2go genes background
                                      (sample opts) rng of
                                 Inl e \<Rightarrow> (samples_table, Inl e)
                               | Inr ((samples, simulation_min_pvalues), rng') \<Rightarrow>
                                   (case (if fdr opts
                                          then calculate_fdrs doFDR samples
                                                 simulation_min_pvalues (sample opts) pairs
                                          else Inr []) of
                                      Inl e \<Rightarrow> (samples_table, Inl e)
                                    | Inr fdrs \<Rightarrow>
                                        (let (tables, status) =
                                               output_ontology opts ontology gene2go go2info
                                                 genes background go_results fdrs samples pairs
                                         in (samples_table @ tables,
                                             case status of
                                               Some e \<Rightarrow> Inl e
                                             | None \<Rightarrow>
                                                 Inr (map_option (\<lambda>b. seq_items background)
                                                        input_background,
                                                      rng')))))))))"

fun main_loop ::
  "('g \<Rightarrow> string list \<Rightarrow> nat \<Rightarrow> string list \<times> 'g)
     \<Rightarrow> ((string \<times> GOResult) list \<Rightarrow> (string \<times> GOResult) list)
     \<Rightarrow> (real list \<Rightarrow> real list)
     \<Rightarrow> options \<Rightarrow> (string, gene2go) dict \<Rightarrow> (string, go2info) dict \<Rightarrow> string list
     \<Rightarrow> string list option \<Rightarrow> 'g \<Rightarrow> string list \<Rightarrow> output_section list \<times> error option" where
  "main_loop random_sample items doFDR opts gene2gos go2infos genes input_background rng [] =
     ([], None)"
| "main_loop random_sample items doFDR opts gene2gos go2infos genes input_background rng
       (ontology # rest) =
     (case analyse_ontology random_sample items doFDR opts gene2gos go2infos genes
             input_background rng ontology of
        (sections, Inl e) \<Rightarrow> (sections, Some e)
      | (sections, Inr (input_background', rng')) \<Rightarrow>
          (let (sections', status) =
                 main_loop random_sample items doFDR opts gene2gos go2infos genes
                   input_background' rng' rest
           in (sections @ sections', status)))"

subsection \<open>Example data\<close>

text \<open>
  \<open>first_sample\<close> is a generator that draws the first elements of the population, one
  possible behaviour of \<^verbatim>\<open>random.sample\<close>. \<open>four_genes\<close> annotates four genes with three
  categories; \<open>observed_results\<close> and \<open>null_samples\<close> are what the evaluator and the
  sampler return on it for the foreground \<^verbatim>\<open>g1\<close>. \<open>example_gene2gos\<close> holds two
  namespaces, the first of which annotates no foreground gene.
  \<open>sections_mol_function\<close> is what the run on the second namespace alone writes.
  \<open>sampling_options\<close> asks for one repetition of the sampler and no FDR;
  \<open>sections_sampling\<close> is what the pass on \<open>four_genes\<close> writes with them before it fails.
\<close>

definition first_sample :: "nat \<Rightarrow> string list \<Rightarrow> nat \<Rightarrow> string list \<times> nat" where
  "first_sample rng population k = (take k population, Suc rng)"

definition cat_C :: GOInfo where
  "cat_C = \<lparr> GOInfo.mGOId = ''C'', mGOType = ''biol_process'', mDescription = ''c'' \<rparr>"

definition four_genes :: gene2go where
  "four_genes = [(''g1'', [cat_A]), (''g2'', [cat_B]), (''g3'', [cat_B]), (''g4'', [cat_C])]"

definition observed_A :: GOResult where
  "observed_A = \<lparr> mIsOverRepresented = False, mGOId = ''A'',
                   mSampleCountsCategory = 1, mBackgroundCountsCategory = 1,
                   mSampleCountsTotal = 1, mBackgroundCountsTotal = 4,
                   mProbabilityOverRepresentation = 1 / 4,
                   mProbabilityUnderRepresentation = 1,
                   mRatio = Some (PyFloat 4) \<rparr>"

definition observed_B :: GOResult where
  "observed_B = \<lparr> mIsOverRepresented = False, mGOId = ''B'',
                   mSampleCountsCategory = 0, mBackgroundCountsCategory = 2,
                   mSampleCountsTotal = 1, mBackgroundCountsTotal = 4,
                   mProbabilityOverRepresentation = 1,
                   mProbabilityUnderRepresentation = 1 / 2,
                   mRatio = Some (PyFloat 0) \<rparr>"

definition observed_C :: GOResult where
  "observed_C = \<lparr> mIsOverRepresented = False, mGOId = ''C'',
                   mSampleCountsCategory = 0, mBackgroundCountsCategory = 1,
                   mSampleCountsTotal = 1, mBackgroundCountsTotal = 4,
                   mProbabilityOverRepresentation = 1,
                   mProbabilityUnderRepresentation = 3 / 4,
                   mRatio = Some (PyFloat 0) \<rparr>"

definition observed_results :: GOResults where
  "observed_results =
     \<lparr> mResults = [(''B'', observed_B), (''A'', observed_A), (''C'', observed_C)],
       mNumGenes = 1, mBackgroundCountsTotal = 4, mSampleCountsTotal = 1,
       mBackgroundNumCategories = 3,
       mBackgroundGenes = [(''g2'', 1), (''g1'', 1), (''g3'', 1), (''g4'', 1)],
       mSampleNumCategories = 1, mSampleGenes = [(''g1'', 1)] \<rparr>"

definition null_samples :: "(string, GOSample) dict" where
  "null_samples =
     [(''B'', \<lparr> mMin = 1, mMax = 1, mMean = 1, mStddev = 0,
                mProbabilitiesOverRepresentation = [1 / 2],
                mProbabilitiesUnderRepresentation = [1], mCounts = [1] \<rparr>),
      (''A'', \<lparr> mMin = 0, mMax = 0, mMean = 0, mStddev = 0,
                mProbabilitiesOverRepresentation = [1],
                mProbabilitiesUnderRepresentation = [3 / 4], mCounts = [0] \<rparr>),
      (''C'', \<lparr> mMin = 0, mMax = 0, mMean = 0, mStddev = 0,
                mProbabilitiesOverRepresentation = [1],
                mProbabilitiesUnderRepresentation = [3 / 4], mCounts = [0] \<rparr>)]"

definition example_options :: options where
  "example_options =
     \<lparr> strict = False, sample = 0, fdr = False, threshold = 1 / 20, sort_order = SortRatio \<rparr>"

definition example_gene2gos :: "(string, gene2go) dict" where
  "example_gene2gos =
     [(''biol_process'', [(''g1'', [cat_A])]), (''mol_function'', [(''g2'', [cat_B])])]"

definition example_go2infos :: "(string, go2info) dict" where
  "example_go2infos =
     [(''biol_process'', [(''A'', cat_A)]), (''mol_function'', [(''B'', cat_B)])]"

definition observed_mol_function :: GOResult where
  "observed_mol_function =
     \<lparr> mIsOverRepresented = False, mGOId = ''B'',
       mSampleCountsCategory = 1, mBackgroundCountsCategory = 1,
       mSampleCountsTotal = 1, mBackgroundCountsTotal = 1,
       mProbabilityOverRepresentation = 1,
       mProbabilityUnderRepresentation = 1,
       mRatio = Some (PyFloat 1) \<rparr>"

definition sections_mol_function :: "output_section list" where
  "sections_mol_function =
     [(''mol_function'', ''samples'', [WriteHeader samples_header]),
      (''mol_function'', ''results'', [WriteHeader (results_header [] [])]),
      (''mol_function'', ''overall'',
       [WriteHeader (results_header [] []),
        WriteResult ''?'' observed_mol_function (Some cat_B),
        WriteNewline]),
      (''mol_function'', ''parameters'',
       [WriteTitle ''mol_function'',
        WriteHeader [''value'', ''parameter''],
        WriteCount 1 ''mapped genes'',
        WriteCount 1 ''mapped categories'',
        WriteCount 1 ''mappings'',
        WriteCount 1 ''genes in sample'',
        WriteCount 1 ''genes in sample with GO assignments'',
        WriteCount 2 ''input background'',
        WriteCount 1 ''genes in background with GO assignments'',
        WriteCount 1 ''associations in sample'',
        WriteCount 1 ''associations in background'',
        WritePercent 1 1 ''percent genes in sample with GO assignments'',
        WritePercent 1 2 ''percent genes background with GO assignments'',
        WriteCount 0 ''significant results reported'',
        WriteThreshold (1 / 20)]),
      (''mol_function'', ''fg'',
       [WriteForeground ''?'' observed_mol_function (Some cat_B) [''g2'']])]"

definition sampling_options :: options where
  "sampling_options =
     \<lparr> strict = False, sample = 1, fdr = False, threshold = 1 / 20, sort_order = SortRatio \<rparr>"

definition sections_sampling :: "output_section list" where
  "sections_sampling =
     [(''biol_process'', ''samples'',
       [WriteHeader samples_header,
        WriteSample ''B'' (the (map_of null_samples ''B'')) None,
        WriteSample ''A'' (the (map_of null_samples ''A'')) (Some cat_A),
        WriteSample ''C'' (the (map_of null_samples ''C'')) None]),
      (''biol_process'', ''results'', [WriteHeader (results_header [] null_samples)]),
      (''biol_process'', ''overall'',
       [WriteHeader (results_header [] null_samples),
        WriteResult ''-'' observed_B None])]"

definition results_no_sample :: GOResults where
  "results_no_sample =
     \<lparr> mResults =
         [(''A'', \<lparr> mIsOverRepresented = False, mGOId = ''A'',
                    mSampleCountsCategory = 0, mBackgroundCountsCategory = 1,
                    mSampleCountsTotal = 0, mBackgroundCountsTotal = 1,
                    mProbabilityOverRepresentation = 1,
                    mProbabilityUnderRepresentation = 1,
                    mRatio = Some (PyStr ''na'') \<rparr>)],
       mNumGenes = 1, mBackgroundCountsTotal = 1, mSampleCountsTotal = 0,
       mBackgroundNumCategories = 1, mBackgroundGenes = [(''g1'', 1)],
       mSampleNumCategories = 0, mSampleGenes = [] \<rparr>"

lemma gamma_1_1_3_1: "hypergeometric_gamma 1 1 3 1 = 1/4"
  by (simp add: hypergeometric_gamma_def lnchoose_def gammaln_def MIN_FLOAT_def
      exp_diff exp_add exp_minus fact_numeral)

lemma gamma_0_1_3_1: "hypergeometric_gamma 0 1 3 1 = 3/4"
  by (simp add: hypergeometric_gamma_def lnchoose_def gammaln_def MIN_FLOAT_def
      exp_diff exp_add exp_minus fact_numeral)

lemma gamma_0_2_2_1: "hypergeometric_gamma 0 2 2 1 = 1/2"
  by (simp add: hypergeometric_gamma_def lnchoose_def gammaln_def MIN_FLOAT_def
      exp_diff exp_add exp_minus fact_numeral)

lemma gamma_1_2_2_1: "hypergeometric_gamma 1 2 2 1 = 1/2"
  by (simp add: hypergeometric_gamma_def lnchoose_def gammaln_def MIN_FLOAT_def
      exp_diff exp_add exp_minus fact_numeral)

lemma Q_0_1_3_1: "hypergeometric_Q 0 1 3 1 = Inr (1/4)"
  by (simp add: hypergeometric_Q_def trunc_quot_def gamma_1_1_3_1 GSL_DBL_EPSILON_def)

lemma P_0_1_3_1: "hypergeometric_P 0 1 3 1 = Inr (3/4)"
  by (simp add: hypergeometric_P_def trunc_quot_def gamma_0_1_3_1 GSL_DBL_EPSILON_def)

lemma P_0_2_2_1: "hypergeometric_P 0 2 2 1 = Inr (1/2)"
  by (simp add: hypergeometric_P_def trunc_quot_def gamma_0_2_2_1 GSL_DBL_EPSILON_def)

lemma Q_0_2_2_1: "hypergeometric_Q 0 2 2 1 = Inr (1/2)"
  by (simp add: hypergeometric_Q_def trunc_quot_def gamma_1_2_2_1 GSL_DBL_EPSILON_def)

lemma P_1_1_3_1: "hypergeometric_P 1 1 3 1 = Inr 1"
  by (simp add: hypergeometric_P_def)

lemma P_1_2_2_1: "hypergeometric_P 1 2 2 1 = Inr 1"
  by (simp add: hypergeometric_P_def)

lemma AnalyseGO_observed:
  "AnalyseGO four_genes [''g1''] (PyList [''g2'', ''g1'', ''g3'', ''g4'']) True
     = Inr observed_results"
  by (simp add: AnalyseGO_def GetGOFrequencies_def four_genes_def cat_A_def cat_B_def cat_C_def
      dict_keys_def dict_get_def category_result_def new_GOResult_def
      UpdateProbabilities_def P_1_1_3_1 P_1_2_2_1 Q_0_1_3_1 P_0_1_3_1 P_0_2_2_1 Q_0_2_2_1
      observed_results_def observed_A_def observed_B_def observed_C_def)

lemma getSamples_null:
  "getSamples first_sample id four_genes [''g1''] (PyList [''g2'', ''g1'', ''g3'', ''g4'']) 1 0
     = Inr ((null_samples, [1 / 2, 3 / 4, 3 / 4]), 1)"
  by (simp add: getSamples_def first_sample_def
      AnalyseGO_def GetGOFrequencies_def four_genes_def cat_A_def cat_B_def cat_C_def
      dict_keys_def dict_get_def category_result_def new_GOResult_def
      UpdateProbabilities_def P_1_1_3_1 P_1_2_2_1 Q_0_1_3_1 P_0_1_3_1 P_0_2_2_1 Q_0_2_2_1
      make_sample_def mean_def std_def min_pvalue_def null_samples_def)

lemma gamma_1_1_0_1: "hypergeometric_gamma 1 1 0 1 = 1"
  by (simp add: hypergeometric_gamma_def lnchoose_def gammaln_def MIN_FLOAT_def)

lemma Q_0_1_0_1: "hypergeometric_Q 0 1 0 1 = Inr 1"
  by (simp add: hypergeometric_Q_def trunc_quot_def gamma_1_1_0_1 GSL_DBL_EPSILON_def)

lemma AnalyseGO_no_sample:
  "AnalyseGO [(''g1'', [cat_A])] [''g2''] (PyList [''g1'', ''g2'']) True = Inr results_no_sample"
  by (simp add: AnalyseGO_def GetGOFrequencies_def cat_A_def dict_keys_def dict_get_def
      category_result_def new_GOResult_def UpdateProbabilities_def hypergeometric_P_def
      results_no_sample_def)

lemma reconcile_example:
  "snd (reconcile_background False [''g2''] (Some [''g1'', ''g2'']) gene2go)
     = Inr (PyList [''g1'', ''g2''])"
  by (simp add: reconcile_background_def missing_genes_def)

lemma P_1_1_0_1: "hypergeometric_P 1 1 0 1 = Inr 1"
  by (simp add: hypergeometric_P_def)

lemma main_loop_first_namespace:
  "main_loop first_sample id id example_options example_gene2gos example_go2infos [''g2'']
      (Some [''g1'', ''g2'']) 0 [''biol_process'']
     = ([], Some (SystemExit 0))"
  by (simp add: analyse_ontology_def example_options_def example_gene2gos_def
      example_go2infos_def reconcile_example AnalyseGO_no_sample results_no_sample_def)

lemma main_loop_second_namespace:
  "main_loop first_sample id id example_options example_gene2gos example_go2infos [''g2'']
      (Some [''g1'', ''g2'']) 0 [''mol_function'']
     = (sections_mol_function, None)"
  by (simp add: analyse_ontology_def example_options_def example_gene2gos_def
      example_go2infos_def reconcile_example AnalyseGO_def GetGOFrequencies_def cat_B_def
      dict_keys_def dict_get_def category_result_def new_GOResult_def UpdateProbabilities_def
      P_1_1_0_1 Q_0_1_0_1 getSamples_def getSamples_sections_def output_ontology_def
      sort_pairs_def comparison_order_def stable_sort_def outputResults_def GetCode_def
      parameters_table_def CountGO_def sections_mol_function_def observed_mol_function_def)

lemma sampler_fails_before_its_table:
  "sample_loop random_sample items gene2go genes background (nat sample_size) rng ([], [], [], [])
     = Inl e
   \<Longrightarrow> getSamples random_sample items gene2go genes background sample_size rng = Inl e
       \<and> getSamples_sections random_sample items ontology go2info gene2go genes background
             sample_size rng = []"
  by (simp add: getSamples_def getSamples_sections_def)

text \<open>
  A pass can fail after it has written: with sampling and without \<^verbatim>\<open>--fdr\<close> the pass on
  \<open>four_genes\<close> writes the samples table and the header of the selected results, and
  fails in the first line of the table of all results.
\<close>

lemma reconcile_four_genes:
  "snd (reconcile_background False [''g1''] (Some [''g2'', ''g1'', ''g3'', ''g4'']) gene2go)
     = Inr (PyList [''g2'', ''g1'', ''g3'', ''g4''])"
  by (simp add: reconcile_background_def missing_genes_def)

lemma pass_fails_after_writing:
  "analyse_ontology first_sample id id sampling_options [(''biol_process'', four_genes)]
      [(''biol_process'', [(''A'', cat_A)])] [''g1''] (Some [''g2'', ''g1'', ''g3'', ''g4'']) 0
      ''biol_process''
     = (sections_sampling,
        Inl (UnboundLocalError ''local variable fdr referenced before assignment''))"
proof -
  have opts: "strict sampling_options = False" "sample sampling_options = 1"
    "fdr sampling_options = False"
    by (simp_all add: sampling_options_def)
  have genes: "mSampleGenes observed_results = [(''g1'', 1)]"
    and pairs: "mResults observed_results
                  = [(''B'', observed_B), (''A'', observed_A), (''C'', observed_C)]"
    by (simp_all add: observed_results_def)
  have samples:
    "getSamples_sections first_sample id ''biol_process'' [(''A'', cat_A)] four_genes [''g1'']
        (PyList [''g2'', ''g1'', ''g3'', ''g4'']) 1 0
       = [hd sections_sampling]"
    by (simp add: getSamples_sections_def first_sample_def
        AnalyseGO_def GetGOFrequencies_def four_genes_def cat_A_def cat_B_def cat_C_def
        dict_keys_def dict_get_def category_result_def new_GOResult_def
        UpdateProbabilities_def P_1_1_3_1 P_1_2_2_1 Q_0_1_3_1 P_0_1_3_1 P_0_2_2_1 Q_0_2_2_1
        make_sample_def mean_def std_def min_pvalue_def null_samples_def sections_sampling_def)
  have sorted_pairs:
    "sort_pairs sampling_options []
        [(''B'', observed_B), (''A'', observed_A), (''C'', observed_C)]
       = Inr [(''B'', observed_B), (''C'', observed_C), (''A'', observed_A)]"
    by (simp add: sort_pairs_def sampling_options_def comparison_order_def stable_sort_def
        observed_A_def observed_B_def observed_C_def)
  have filtered_pairs:
    "filter_pairs sampling_options []
        [(''B'', observed_B), (''C'', observed_C), (''A'', observed_A)] [] = Inr []"
    by (simp add: sampling_options_def observed_A_def observed_B_def observed_C_def)
  have overall:
    "outputResults sampling_options [(''A'', cat_A)] [] null_samples
        [(''B'', observed_B), (''C'', observed_C), (''A'', observed_A)]
       = ([WriteHeader (results_header [] null_samples), WriteResult ''-'' observed_B None],
          Some (UnboundLocalError ''local variable fdr referenced before assignment''))"
    by (simp add: outputResults_def opts GetCode_def observed_B_def null_samples_def)
  have selected:
    "outputResults sampling_options [(''A'', cat_A)] [] null_samples []
       = ([WriteHeader (results_header [] null_samples)], None)"
    by (simp add: outputResults_def)
  have tables:
    "output_ontology sampling_options ''biol_process'' four_genes [(''A'', cat_A)] [''g1'']
        (PyList [''g2'', ''g1'', ''g3'', ''g4'']) observed_results [] null_samples
        [(''B'', observed_B), (''A'', observed_A), (''C'', observed_C)]
       = (tl sections_sampling,
          Some (UnboundLocalError ''local variable fdr referenced before assignment''))"
    by (simp add: output_ontology_def sorted_pairs filtered_pairs selected overall
        sections_sampling_def del: filter_pairs.simps)
  show ?thesis
    by (simp add: analyse_ontology_def opts reconcile_four_genes AnalyseGO_observed genes pairs
        getSamples_null samples tables sections_sampling_def)
qed

subsection \<open>Reconciliation of foreground and background\<close>

text \<open>
  Claim C7. With the default background (no background file) the reconciliation of the
  default mode does not extend the background: the default background is a tuple, the
  call of \<^verbatim>\<open>extend\<close> raises \<^verbatim>\<open>AttributeError\<close>, for every foreground and every map,
  also when no gene is missing.
\<close>

theorem reconcile_default_background_fails:
  "snd (reconcile_background False genes None gene2go)
     = Inl (AttributeError ''tuple object has no attribute extend'')"
  by (simp add: reconcile_background_def Let_def)

text \<open>
  With a supplied background the default mode extends it to a superset of the
  foreground, and the strict mode fails exactly when a foreground gene is missing.
\<close>

lemma set_missing_genes: "set (missing_genes genes background) = set genes - set background"
  by (auto simp: missing_genes_def)

lemma reconcile_supplied_background:
  "snd (reconcile_background False genes (Some b) gene2go)
     = Inr (PyList (b @ missing_genes genes b))
   \<and> set genes \<subseteq> set (b @ missing_genes genes b)"
  by (auto simp: reconcile_background_def Let_def set_missing_genes)

lemma reconcile_strict:
  "(set genes \<subseteq> set (seq_items bg) \<longrightarrow>
      snd (reconcile_background True genes ib gene2go) = Inr bg)
   \<and> (\<not> set genes \<subseteq> set (seq_items bg) \<longrightarrow>
      (\<exists>msg. snd (reconcile_background True genes ib gene2go) = Inl (AssertionError msg)))"
  if "bg = (case ib of None \<Rightarrow> PyTuple (dict_keys gene2go) | Some b \<Rightarrow> PyList b)"
  using that by (auto simp: reconcile_background_def Let_def missing_genes_def filter_empty_conv)

subsection \<open>A fatal condition in one namespace\<close>

lemma main_loop_stops:
  "snd (main_loop random_sample items doFDR opts gene2gos go2infos genes input_background rng xs)
     = Some e
   \<Longrightarrow> main_loop random_sample items doFDR opts gene2gos go2infos genes input_background rng
         (xs @ ys)
       = main_loop random_sample items doFDR opts gene2gos go2infos genes input_background rng xs"
proof (induction xs arbitrary: input_background rng)
  case Nil
  then show ?case by simp
next
  case (Cons ontology xs)
  obtain sections r where a:
    "analyse_ontology random_sample items doFDR opts gene2gos go2infos genes input_background rng
       ontology = (sections, r)"
    by (cases "analyse_ontology random_sample items doFDR opts gene2gos go2infos genes
                 input_background rng ontology")
  show ?case
  proof (cases r)
    case (Inl e')
    with a show ?thesis by simp
  next
    case (Inr p)
    obtain ib' rng' where p: "p = (ib', rng')" by (cases p)
    from Cons.prems a Inr p
    have "snd (main_loop random_sample items doFDR opts gene2gos go2infos genes ib' rng' xs)
            = Some e"
      by (simp split: prod.splits)
    from Cons.IH [OF this] a Inr p show ?thesis by simp
  qed
qed

text \<open>
  Claim C8, as amended. A fatal condition in one namespace ends the whole run: the
  namespaces requested after it are not analysed and nothing is written for them. A
  run that ended with an exception on the namespaces \<open>xs\<close> is the same run on
  \<open>xs @ ys\<close>, with the same sections and the same exception. In particular, a namespace
  in which no sample gene has a category assignment ends its pass with \<^verbatim>\<open>sys.exit(0)\<close>
  before any table is opened, and the run with it.
\<close>

theorem run_stops_at_failing_namespace:
  "(map_of gene2gos ontology = Some gene2go
      \<and> map_of go2infos ontology = Some go2info
      \<and> snd (reconcile_background (strict opts) genes input_background gene2go) = Inr background
      \<and> AnalyseGO gene2go genes background True = Inr go_results
      \<and> mSampleGenes go_results = []
    \<longrightarrow> analyse_ontology random_sample items doFDR opts gene2gos go2infos genes input_background
            rng ontology
          = ([], Inl (SystemExit 0))
        \<and> main_loop random_sample items doFDR opts gene2gos go2infos genes input_background rng
            (ontology # rest) = ([], Some (SystemExit 0)))
   \<and> (snd (main_loop random_sample items doFDR opts gene2gos go2infos genes input_background rng
              xs) = Some e
    \<longrightarrow> main_loop random_sample items doFDR opts gene2gos go2infos genes input_background rng
            (xs @ ys)
          = main_loop random_sample items doFDR opts gene2gos go2infos genes input_background rng
              xs)"
  using main_loop_stops [of random_sample items doFDR opts gene2gos go2infos genes
      input_background rng xs e ys]
  by (auto simp: analyse_ontology_def)

theorem run_stops_at_failing_namespace_witness:
  "map_of example_gene2gos ''biol_process'' = Some [(''g1'', [cat_A])]
   \<and> map_of example_go2infos ''biol_process'' = Some [(''A'', cat_A)]
   \<and> snd (reconcile_background (strict example_options) [''g2''] (Some [''g1'', ''g2''])
            [(''g1'', [cat_A])]) = Inr (PyList [''g1'', ''g2''])
   \<and> AnalyseGO [(''g1'', [cat_A])] [''g2''] (PyList [''g1'', ''g2'']) True = Inr results_no_sample
   \<and> mSampleGenes results_no_sample = []
   \<and> analyse_ontology first_sample id id example_options example_gene2gos example_go2infos
        [''g2''] (Some [''g1'', ''g2'']) 0 ''biol_process'' = ([], Inl (SystemExit 0))
   \<and> main_loop first_sample id id example_options example_gene2gos example_go2infos [''g2'']
        (Some [''g1'', ''g2'']) 0 [''biol_process'', ''mol_function'']
      = ([], Some (SystemExit 0))
   \<and> snd (main_loop first_sample id id example_options example_gene2gos example_go2infos
             [''g2''] (Some [''g1'', ''g2'']) 0 [''biol_process'']) = Some (SystemExit 0)
   \<and> main_loop first_sample id id example_options example_gene2gos example_go2infos [''g2'']
        (Some [''g1'', ''g2'']) 0 ([''biol_process''] @ [''mol_function''])
      = main_loop first_sample id id example_options example_gene2gos example_go2infos [''g2'']
          (Some [''g1'', ''g2'']) 0 [''biol_process'']"
proof -
  have h1: "map_of example_gene2gos ''biol_process'' = Some [(''g1'', [cat_A])]"
    by (simp add: example_gene2gos_def)
  have h1': "map_of example_go2infos ''biol_process'' = Some [(''A'', cat_A)]"
    by (simp add: example_go2infos_def)
  have h2: "snd (reconcile_background (strict example_options) [''g2''] (Some [''g1'', ''g2''])
            [(''g1'', [cat_A])]) = Inr (PyList [''g1'', ''g2''])"
    by (simp add: example_options_def reconcile_example)
  have h4: "mSampleGenes results_no_sample = []" by (simp add: results_no_sample_def)
  from run_stops_at_failing_namespace [where gene2gos = example_gene2gos
      and go2infos = example_go2infos and go2info = "[(''A'', cat_A)]"
      and ontology = "''biol_process''" and gene2go = "[(''g1'', [cat_A])]"
      and opts = example_options and genes = "[''g2'']"
      and input_background = "Some [''g1'', ''g2'']"
      and background = "PyList [''g1'', ''g2'']" and go_results = results_no_sample
      and random_sample = first_sample and items = id and doFDR = id and rng = 0
      and rest = "[''mol_function'']" and xs = "[''biol_process'']" and e = "SystemExit 0"
      and ys = "[''mol_function'']"]
    h1 h1' h2 AnalyseGO_no_sample h4 main_loop_first_namespace
  show ?thesis by simp
qed

text \<open>
  The claim as stated fails: requested after a namespace without annotated sample
  genes, the namespace \<^verbatim>\<open>mol_function\<close> is not analysed and none of its tables is
  written, although the same run on \<^verbatim>\<open>mol_function\<close> alone writes all five.
\<close>

theorem namespace_isolation_counterexample:
  "main_loop first_sample id id example_options example_gene2gos example_go2infos [''g2'']
      (Some [''g1'', ''g2'']) 0 [''biol_process'', ''mol_function'']
     = ([], Some (SystemExit 0))
   \<and> main_loop first_sample id id example_options example_gene2gos example_go2infos [''g2'']
        (Some [''g1'', ''g2'']) 0 [''mol_function'']
      = (sections_mol_function, None)
   \<and> map fst sections_mol_function
      = [''mol_function'', ''mol_function'', ''mol_function'', ''mol_function'', ''mol_function'']"
proof -
  have "main_loop first_sample id id example_options example_gene2gos example_go2infos [''g2'']
          (Some [''g1'', ''g2'']) 0 [''biol_process'', ''mol_function'']
        = ([], Some (SystemExit 0))"
    by (simp add: analyse_ontology_def example_options_def example_gene2gos_def
        example_go2infos_def reconcile_example AnalyseGO_no_sample results_no_sample_def)
  moreover have "map fst sections_mol_function
      = [''mol_function'', ''mol_function'', ''mol_function'', ''mol_function'', ''mol_function'']"
    by (simp add: sections_mol_function_def)
  ultimately show ?thesis using main_loop_second_namespace by simp
qed

subsection \<open>Determinism of the sampler\<close>

lemma set_dict_keys: "set (dict_keys d) = dom (map_of d)"
  by (simp add: dict_keys_def dom_map_of_conv_image_fst)

lemma dict_keys_dict_set: "set (dict_keys (dict_set d k v)) = insert k (set (dict_keys d))"
  by (simp add: set_dict_keys map_of_dict_set)

lemma distinct_dict_set:
  "distinct (dict_keys d) \<Longrightarrow> distinct (dict_keys (dict_set d k v))"
proof (induction d k v rule: dict_set.induct)
  case (1 k v)
  then show ?case by (simp add: dict_keys_def)
next
  case (2 k' v' d k v)
  have "set (dict_keys (dict_set d k v)) = insert k (set (dict_keys d))"
    by (rule dict_keys_dict_set)
  with 2 show ?case by (auto simp: dict_keys_def)
qed

lemma AnalyseGO_loop_distinct:
  "AnalyseGO_loop do_probabilities sc sg bg bc go_ids results = Inr res
   \<Longrightarrow> distinct (dict_keys results) \<Longrightarrow> distinct (dict_keys res)"
proof (induction go_ids arbitrary: results)
  case Nil
  then show ?case by simp
next
  case (Cons go_id go_ids)
  from Cons.prems(1) obtain r where
    "AnalyseGO_loop do_probabilities sc sg bg bc go_ids (dict_set results go_id r) = Inr res"
    by (auto simp: Let_def split: if_splits sum.splits error.splits)
  then show ?case
    by (rule Cons.IH) (rule distinct_dict_set [OF Cons.prems(2)])
qed

lemma AnalyseGO_distinct:
  "AnalyseGO gene2go genes background do_probabilities = Inr go_results
   \<Longrightarrow> distinct (dict_keys (mResults go_results))"
  by (auto simp: AnalyseGO_def Let_def dict_keys_def split: prod.splits sum.splits
      dest!: AnalyseGO_loop_distinct)

lemma acc_view_record_pair: "acc_view (record_pair p acc) = view_pair p (acc_view acc)"
proof -
  obtain k v where p: "p = (k, v)" by (cases p)
  obtain counts po pu sim where acc: "acc = (counts, po, pu, sim)" by (cases acc)
  show ?thesis
    unfolding p acc
    by (simp add: acc_view_def view_pair_def view_append_def Let_def map_of_dict_set
        set_dict_keys dict_get_def domIff fun_upd_twist split: option.splits)
qed

lemma acc_view_record_pairs:
  "acc_view (record_pairs pairs acc) = fold view_pair pairs (acc_view acc)"
  by (induction pairs arbitrary: acc) (simp_all add: acc_view_record_pair)

lemma view_pair_commute:
  assumes "fst p \<noteq> fst q"
  shows "view_pair p (view_pair q a) = view_pair q (view_pair p a)"
proof -
  obtain k v where p: "p = (k, v)" by (cases p)
  obtain k' v' where q: "q = (k', v')" by (cases q)
  obtain mc mo mu ms where a: "a = (mc, mo, mu, ms)" by (cases a)
  from assms p q have "k \<noteq> k'" by simp
  then show ?thesis
    unfolding p q a
    by (auto simp: view_pair_def view_append_def fun_upd_twist domIff add.commute add.left_commute)
qed

lemma fold_view_pair_permuted:
  assumes "mset pairs1 = mset pairs2" and "distinct (map fst pairs1)"
  shows "fold view_pair pairs1 a = fold view_pair pairs2 a"
proof -
  have "view_pair x \<circ> view_pair y = view_pair y \<circ> view_pair x"
    if "x \<in> set pairs1" and "y \<in> set pairs1" for x y
  proof (cases "x = y")
    case True
    then show ?thesis by simp
  next
    case False
    with that assms(2) have "fst x \<noteq> fst y"
      by (metis distinct_map inj_onD)
    then show ?thesis by (auto simp: fun_eq_iff view_pair_commute)
  qed
  then have "fold view_pair pairs1 = fold view_pair pairs2"
    using assms(1) by (rule fold_multiset_equiv)
  then show ?thesis by simp
qed

lemma items_distinct:
  assumes "mset (items d) = mset d" and "distinct (dict_keys d)"
  shows "distinct (map fst (items d))"
proof -
  from assms(1) have "mset (map fst (items d)) = mset (map fst d)" by (metis mset_map)
  then show ?thesis using assms(2) unfolding dict_keys_def
    by (metis mset_eq_imp_distinct_iff)
qed

lemma sample_loop_same:
  assumes "\<forall>d. mset (items1 d) = mset d" and "\<forall>d. mset (items2 d) = mset d"
    and "acc_view acc1 = acc_view acc2"
  shows "case sample_loop random_sample items1 gene2go genes background n rng acc1 of
           Inl e \<Rightarrow> sample_loop random_sample items2 gene2go genes background n rng acc2 = Inl e
         | Inr (a1, g1) \<Rightarrow>
             (\<exists>a2. sample_loop random_sample items2 gene2go genes background n rng acc2
                      = Inr (a2, g1) \<and> acc_view a2 = acc_view a1)"
  using assms(3)
proof (induction n arbitrary: rng acc1 acc2)
  case 0
  then show ?case by simp
next
  case (Suc n)
  show ?case
  proof (cases "length genes > length (seq_items background)")
    case True
    then show ?thesis by simp
  next
    case False
    obtain sample_genes rng' where
      rs: "random_sample rng (seq_items background) (length genes) = (sample_genes, rng')"
      by (cases "random_sample rng (seq_items background) (length genes)")
    show ?thesis
    proof (cases "AnalyseGO gene2go sample_genes background True")
      case (Inl e)
      with False rs show ?thesis by simp
    next
      case (Inr go_results)
      let ?d = "mResults go_results"
      have d: "distinct (dict_keys ?d)" using Inr by (rule AnalyseGO_distinct)
      have m: "mset (items1 ?d) = mset (items2 ?d)" using assms(1,2) by simp
      have "distinct (map fst (items1 ?d))"
        using assms(1) d by (auto intro: items_distinct)
      with m have "fold view_pair (items1 ?d) (acc_view acc1)
                     = fold view_pair (items2 ?d) (acc_view acc1)"
        by (rule fold_view_pair_permuted)
      with Suc.prems have
        "acc_view (record_pairs (items1 ?d) acc1) = acc_view (record_pairs (items2 ?d) acc2)"
        by (simp add: acc_view_record_pairs)
      note ih = Suc.IH [OF this, of rng']
      have u1: "sample_loop random_sample items1 gene2go genes background (Suc n) rng acc1
                  = sample_loop random_sample items1 gene2go genes background n rng'
                      (record_pairs (items1 ?d) acc1)"
        using False rs Inr by simp
      have u2: "sample_loop random_sample items2 gene2go genes background (Suc n) rng acc2
                  = sample_loop random_sample items2 gene2go genes background n rng'
                      (record_pairs (items2 ?d) acc2)"
        using False rs Inr by simp
      from ih show ?thesis unfolding u1 u2 .
    qed
  qed
qed

lemma sample_for_view:
  "acc_view (c1, po1, pu1, s1) = acc_view (c2, po2, pu2, s2)
   \<Longrightarrow> sample_for c1 po1 pu1 = sample_for c2 po2 pu2"
  by (auto simp: acc_view_def sample_for_def dict_get_def fun_eq_iff)

lemma make_sample_error:
  "make_sample c po pu = Inl e \<Longrightarrow> e = ValueError ''min() arg is an empty sequence''"
  by (auto simp: make_sample_def split: list.splits)

lemma build_samples_fails:
  "build_samples counts po pu ks samples = Inl e
   \<Longrightarrow> e = ValueError ''min() arg is an empty sequence''
       \<and> (\<exists>k \<in> set ks. \<exists>e'. sample_for counts po pu k = Inl e')"
proof (induction ks arbitrary: samples)
  case Nil
  then show ?case by simp
next
  case (Cons k ks)
  show ?case
  proof (cases "sample_for counts po pu k")
    case (Inl e')
    with Cons.prems show ?thesis
      by (auto simp: sample_for_def dest: make_sample_error)
  next
    case (Inr s)
    with Cons.prems have "build_samples counts po pu ks (dict_set samples k s) = Inl e"
      by (simp add: sample_for_def)
    from Cons.IH [OF this] show ?thesis by auto
  qed
qed

lemma build_samples_map:
  "build_samples counts po pu ks samples = Inr res
   \<Longrightarrow> map_of res =
         (\<lambda>k. if k \<in> set ks then (case sample_for counts po pu k of
                                      Inl e \<Rightarrow> None | Inr s \<Rightarrow> Some s)
              else map_of samples k)
       \<and> (\<forall>k \<in> set ks. \<exists>s. sample_for counts po pu k = Inr s)"
proof (induction ks arbitrary: samples)
  case Nil
  then show ?case by simp
next
  case (Cons k ks)
  from Cons.prems obtain s where
    s: "sample_for counts po pu k = Inr s" and
    rest: "build_samples counts po pu ks (dict_set samples k s) = Inr res"
    by (auto simp: sample_for_def split: sum.splits)
  from Cons.IH [OF rest] s show ?case
    by (auto simp: map_of_dict_set fun_eq_iff)
qed

text \<open>
  Claim C9. Two runs of \<open>getSamples\<close> on the same map, foreground, background and number
  of repetitions, from the same state of the random generator, have the same outcome,
  whatever order the dictionaries are iterated in: the same count list and the same
  sorted over- and under-representation p-values for every category, the same pooled
  list of minimum p-values and the same final generator state (or the same exception).
\<close>

theorem getSamples_deterministic:
  assumes "\<forall>d. mset (items1 d) = mset d" and "\<forall>d. mset (items2 d) = mset d"
  shows "same_samples
           (getSamples random_sample items1 gene2go genes background sample_size rng)
           (getSamples random_sample items2 gene2go genes background sample_size rng)"
proof -
  let ?l1 = "sample_loop random_sample items1 gene2go genes background (nat sample_size) rng
               ([], [], [], [])"
  let ?l2 = "sample_loop random_sample items2 gene2go genes background (nat sample_size) rng
               ([], [], [], [])"
  note same = sample_loop_same [OF assms, of "([], [], [], [])" "([], [], [], [])"
      random_sample gene2go genes background "nat sample_size" rng]
  show ?thesis
  proof (cases ?l1)
    case (Inl e)
    with same have "?l2 = Inl e" by simp
    with Inl show ?thesis by (simp add: getSamples_def same_samples_def)
  next
    case (Inr r)
    obtain c1 po1 pu1 s1 g where r: "r = ((c1, po1, pu1, s1), g)" by (cases r) auto
    from same Inr r obtain a2 where l2: "?l2 = Inr (a2, g)"
      and v: "acc_view a2 = acc_view (c1, po1, pu1, s1)" by auto
    obtain c2 po2 pu2 s2 where a2: "a2 = (c2, po2, pu2, s2)" by (cases a2) auto
    from v a2 have F: "sample_for c2 po2 pu2 = sample_for c1 po1 pu1"
      by (auto intro: sample_for_view)
    from v a2 have keys: "set (dict_keys c2) = set (dict_keys c1)"
      by (simp add: acc_view_def set_dict_keys)
    from v a2 have "mset s2 = mset s1" by (simp add: acc_view_def)
    then have srt: "sort s2 = sort s1"
      by (metis mset_sort properties_for_sort sorted_sort)
    let ?b1 = "build_samples c1 po1 pu1 (dict_keys c1) []"
    let ?b2 = "build_samples c2 po2 pu2 (dict_keys c2) []"
    show ?thesis
    proof (cases ?b1)
      case (Inl e)
      from build_samples_fails [OF this] obtain k e' where
        e: "e = ValueError ''min() arg is an empty sequence''" and
        k: "k \<in> set (dict_keys c1)" "sample_for c1 po1 pu1 k = Inl e'" by auto
      have "?b2 = Inl e"
      proof (cases ?b2)
        case (Inl e2)
        from build_samples_fails [OF this] e show ?thesis using Inl by simp
      next
        case (Inr res2)
        from build_samples_map [OF this] k keys F show ?thesis by auto
      qed
      with Inl Inr r l2 a2 show ?thesis by (simp add: getSamples_def same_samples_def)
    next
      case b1: (Inr res1)
      note m1 = build_samples_map [OF b1]
      show ?thesis
      proof (cases ?b2)
        case (Inl e2)
        from build_samples_fails [OF this] m1 keys F show ?thesis by auto
      next
        case b2: (Inr res2)
        from build_samples_map [OF b2] m1 keys F have "map_of res1 = map_of res2"
          by (auto simp: fun_eq_iff)
        with b1 b2 Inr r l2 a2 srt show ?thesis
          by (simp add: getSamples_def same_samples_def)
      qed
    qed
  qed
qed

theorem getSamples_deterministic_witness:
  "(\<forall>d :: (string \<times> GOResult) list. mset (id d) = mset d)
   \<and> (\<forall>d :: (string \<times> GOResult) list. mset (rev d) = mset d)
   \<and> same_samples
        (getSamples first_sample id [(''g1'', [cat_A]), (''g2'', [cat_B])] [''g1'']
           (PyList [''g1'', ''g2'']) 1 0)
        (getSamples first_sample rev [(''g1'', [cat_A]), (''g2'', [cat_B])] [''g1'']
           (PyList [''g1'', ''g2'']) 1 0)"
  using getSamples_deterministic [where ?items1.0 = id and ?items2.0 = rev
      and random_sample = first_sample
      and gene2go = "[(''g1'', [cat_A]), (''g2'', [cat_B])]" and genes = "[''g1'']"
      and background = "PyList [''g1'', ''g2'']" and sample_size = 1 and rng = 0]
  by simp

subsection \<open>The FDR of the sampling mode\<close>

lemma count_below_takeWhile:
  "a \<le> length xs \<Longrightarrow>
     count_below xs pvalue a = a + length (takeWhile (\<lambda>x. x < pvalue) (drop a xs))"
proof (induction xs pvalue a rule: count_below.induct)
  case (1 xs pvalue a)
  show ?case
  proof (cases "a < length xs")
    case False
    with "1.prems" show ?thesis by (subst count_below.simps) simp
  next
    case True
    then have d: "drop a xs = xs ! a # drop (Suc a) xs"
      by (simp add: Cons_nth_drop_Suc)
    show ?thesis
    proof (cases "xs ! a < pvalue")
      case True
      with \<open>a < length xs\<close> "1.IH" d show ?thesis
        by (subst count_below.simps) simp
    next
      case False
      with d show ?thesis
        by (subst count_below.simps) simp
    qed
  qed
qed

lemma sorted_takeWhile_less:
  "sorted xs \<Longrightarrow> takeWhile (\<lambda>x. x < pvalue) xs = filter (\<lambda>x. x < (pvalue::real)) xs"
proof (induction xs)
  case Nil
  then show ?case by simp
next
  case (Cons x xs)
  show ?case
  proof (cases "x < pvalue")
    case True
    with Cons show ?thesis by simp
  next
    case False
    with Cons.prems have "\<forall>y \<in> set xs. \<not> y < pvalue" by fastforce
    then have "filter (\<lambda>x. x < pvalue) xs = []" by (simp add: filter_empty_conv)
    with False show ?thesis by simp
  qed
qed

lemma count_below_sorted:
  "sorted xs \<Longrightarrow> count_below xs pvalue 0 = length (filter (\<lambda>x. x < pvalue) xs)"
  by (simp add: count_below_takeWhile sorted_takeWhile_less)

lemma length_filter_sort:
  "length (filter P (sort xs)) = length (filter P (xs::real list))"
proof -
  have "mset (filter P (sort xs)) = mset (filter P xs)" by simp
  then show ?thesis by (rule mset_eq_length)
qed

lemma getSamples_sorted:
  "getSamples random_sample items gene2go genes background sample_size rng
     = Inr ((samples, simulation_min_pvalues), rng') \<Longrightarrow> sorted simulation_min_pvalues"
  by (auto simp: getSamples_def split: sum.splits prod.splits)

lemma fdr_loop_entry:
  assumes "fdr_loop samples sim obs sample_size pairs fdrs = Inr res"
    and "distinct (map fst pairs)" and "(k, v) \<in> set pairs"
  shows "map_of res k =
           Some (sampling_fdr sim obs sample_size
                   (min (mProbabilityOverRepresentation v) (mProbabilityUnderRepresentation v)))"
proof -
  have keep: "fdr_loop samples sim obs sample_size pairs fdrs = Inr res \<Longrightarrow>
              k \<notin> fst ` set pairs \<Longrightarrow> map_of res k = map_of fdrs k" for pairs fdrs
  proof (induction pairs arbitrary: fdrs)
    case Nil
    then show ?case by simp
  next
    case (Cons kv pairs)
    obtain k' v' where kv: "kv = (k', v')" by (cases kv)
    from Cons.prems kv obtain s where
      rest: "fdr_loop samples sim obs sample_size pairs
               (dict_set fdrs k' (sampling_fdr sim obs sample_size
                  (min (mProbabilityOverRepresentation v') (mProbabilityUnderRepresentation v')))) = Inr res"
      by (auto split: option.splits)
    from Cons.prems(2) kv have "k \<noteq> k'" and "k \<notin> fst ` set pairs" by auto
    with Cons.IH [OF rest] show ?case by (simp add: map_of_dict_set)
  qed
  from assms show ?thesis
  proof (induction pairs arbitrary: fdrs)
    case Nil
    then show ?case by simp
  next
    case (Cons kv pairs)
    obtain k' v' where kv: "kv = (k', v')" by (cases kv)
    from Cons.prems(1) kv obtain s where
      rest: "fdr_loop samples sim obs sample_size pairs
               (dict_set fdrs k' (sampling_fdr sim obs sample_size
                  (min (mProbabilityOverRepresentation v') (mProbabilityUnderRepresentation v')))) = Inr res"
      by (auto split: option.splits)
    show ?case
    proof (cases "(k, v) = kv")
      case True
      with kv Cons.prems(2) have "k \<notin> fst ` set pairs" by auto
      from keep [OF rest this] True kv show ?thesis by (simp add: map_of_dict_set)
    next
      case False
      with Cons.prems have "(k, v) \<in> set pairs" and "distinct (map fst pairs)" by auto
      from Cons.IH [OF rest this(2) this(1)] show ?thesis .
    qed
  qed
qed

lemma AnalyseGO_loop_keys:
  "AnalyseGO_loop do_probabilities sc sg bg bc go_ids results = Inr res
   \<Longrightarrow> set (dict_keys res) = set (dict_keys results) \<union> set go_ids"
proof (induction go_ids arbitrary: results)
  case Nil
  then show ?case by simp
next
  case (Cons go_id go_ids)
  from Cons.prems obtain r where
    "AnalyseGO_loop do_probabilities sc sg bg bc go_ids (dict_set results go_id r) = Inr res"
    by (auto simp: Let_def split: if_splits sum.splits error.splits)
  from Cons.IH [OF this] show ?case by (auto simp: dict_keys_dict_set)
qed

lemma AnalyseGO_keys:
  assumes "AnalyseGO gene2go genes background do_probabilities = Inr go_results"
  shows "set (dict_keys (mResults go_results)) =
           set (dict_keys (fst (snd (GetGOFrequencies gene2go
                  (if background = PyTuple [] then dict_keys gene2go
                   else seq_items background)))))"
proof -
  let ?bg = "if background = PyTuple [] then dict_keys gene2go else seq_items background"
  obtain bt bc bgenes where f: "GetGOFrequencies gene2go ?bg = (bt, bc, bgenes)"
    by (cases "GetGOFrequencies gene2go ?bg")
  obtain st sc sg where g: "GetGOFrequencies gene2go genes = (st, sc, sg)"
    by (cases "GetGOFrequencies gene2go genes")
  from assms f g obtain results where
    loop: "AnalyseGO_loop do_probabilities sc sg bgenes bc (dict_keys bc) [] = Inr results" and
    res: "mResults go_results = results"
    by (auto simp: AnalyseGO_def Let_def split: sum.splits)
  from AnalyseGO_loop_keys [OF loop] have "set (dict_keys results) = set (dict_keys bc)"
    by (simp add: dict_keys_def)
  with res f show ?thesis by simp
qed

lemma record_pair_keys:
  "set (dict_keys (fst (record_pair p acc))) = insert (fst p) (set (dict_keys (fst acc)))"
proof -
  obtain k v where p: "p = (k, v)" by (cases p)
  obtain counts po pu sim where acc: "acc = (counts, po, pu, sim)" by (cases acc)
  show ?thesis unfolding p acc
    by (auto simp: Let_def dict_keys_dict_set)
qed

lemma record_pairs_keys:
  "set (dict_keys (fst (record_pairs pairs acc))) = set (dict_keys (fst acc)) \<union> fst ` set pairs"
  by (induction pairs arbitrary: acc) (auto simp: record_pair_keys)

lemma sample_loop_keys:
  assumes "sample_loop random_sample items gene2go genes background n rng acc = Inr (acc', rng')"
    and "\<forall>d. mset (items d) = mset d"
  shows "set (dict_keys (fst acc)) \<subseteq> set (dict_keys (fst acc'))
       \<and> (n > 0 \<longrightarrow>
            set (dict_keys (fst (snd (GetGOFrequencies gene2go
                  (if background = PyTuple [] then dict_keys gene2go
                   else seq_items background)))))
              \<subseteq> set (dict_keys (fst acc')))"
  using assms(1)
proof (induction n arbitrary: rng acc)
  case 0
  then show ?case by simp
next
  case (Suc n)
  obtain sample_genes rng1 where
    rs: "random_sample rng (seq_items background) (length genes) = (sample_genes, rng1)"
    by (cases "random_sample rng (seq_items background) (length genes)")
  from Suc.prems rs obtain go_results where
    an: "AnalyseGO gene2go sample_genes background True = Inr go_results" and
    rest: "sample_loop random_sample items gene2go genes background n rng1
             (record_pairs (items (mResults go_results)) acc) = Inr (acc', rng')"
    by (auto split: if_splits sum.splits)
  from assms(2) have "set (items (mResults go_results)) = set (mResults go_results)"
    by (metis set_mset_mset)
  then have keys: "set (dict_keys (fst (record_pairs (items (mResults go_results)) acc)))
      = set (dict_keys (fst acc)) \<union> set (dict_keys (mResults go_results))"
    unfolding record_pairs_keys by (simp add: dict_keys_def)
  from Suc.IH [OF rest] keys AnalyseGO_keys [OF an] show ?case by auto
qed

lemma build_samples_dom:
  assumes "build_samples counts po pu ks [] = Inr samples"
  shows "dom (map_of samples) = set ks"
  using build_samples_map [OF assms] by (auto simp: dom_def split: if_splits)

lemma getSamples_keys:
  assumes "getSamples random_sample items gene2go genes background sample_size rng
             = Inr ((samples, simulation_min_pvalues), rng')"
    and "\<forall>d. mset (items d) = mset d" and "sample_size > 0"
  shows "set (dict_keys (fst (snd (GetGOFrequencies gene2go
                  (if background = PyTuple [] then dict_keys gene2go
                   else seq_items background)))))
           \<subseteq> dom (map_of samples)"
proof -
  from assms(1) obtain counts po pu sim where
    loop: "sample_loop random_sample items gene2go genes background (nat sample_size) rng
             ([], [], [], []) = Inr ((counts, po, pu, sim), rng')" and
    build: "build_samples counts po pu (dict_keys counts) [] = Inr samples"
    by (auto simp: getSamples_def split: sum.splits prod.splits)
  from sample_loop_keys [OF loop assms(2)] assms(3) build_samples_dom [OF build]
  show ?thesis by simp
qed

lemma fdr_loop_total:
  "fst ` set pairs \<subseteq> dom (map_of samples)
   \<Longrightarrow> \<exists>res. fdr_loop samples sim obs sample_size pairs fdrs = Inr res"
proof (induction pairs arbitrary: fdrs)
  case Nil
  then show ?case by simp
next
  case (Cons kv pairs)
  obtain k v where kv: "kv = (k, v)" by (cases kv)
  from Cons.prems kv obtain s where "map_of samples k = Some s" by auto
  with Cons.IH Cons.prems kv show ?case by auto
qed

text \<open>
  Claim C2. Let the observed analysis and the sampler, run on the same map, foreground
  and background with \<open>sample_size > 0\<close> repetitions, both return, and let \<open>pairs\<close> be
  the observed results in any iteration order. Then the FDR loop returns, and for every
  observed category \<open>k\<close> with minimum p-value \<open>p\<close> its entry is \<open>(fdr, a, b)\<close>, where \<open>a\<close>
  is the number of entries of the pooled list of simulated minimum p-values strictly
  below \<open>p\<close> divided by the number of repetitions, \<open>b\<close> is the number of observed
  categories whose minimum p-value is strictly below \<open>p\<close>, and \<open>fdr\<close> is \<open>min 1 (a / b)\<close>
  when \<open>b > 0\<close> and 1 otherwise.
\<close>

theorem sampling_fdr_estimate:
  assumes "\<forall>d. mset (items d) = mset d"
    and "AnalyseGO gene2go genes background True = Inr go_results"
    and "getSamples random_sample items gene2go genes background sample_size rng
           = Inr ((samples, simulation_min_pvalues), rng')"
    and "sample_size > 0"
    and "pairs = items (mResults go_results)"
    and "(k, v) \<in> set pairs"
    and "p = min (mProbabilityOverRepresentation v) (mProbabilityUnderRepresentation v)"
    and "a = real (length (filter (\<lambda>x. x < p) simulation_min_pvalues)) / real_of_int sample_size"
    and "b = length (filter (\<lambda>x. min (mProbabilityOverRepresentation (snd x))
                                     (mProbabilityUnderRepresentation (snd x)) < p) pairs)"
  shows "\<exists>fdrs. calculate_fdrs doFDR samples simulation_min_pvalues sample_size pairs = Inr fdrs
           \<and> map_of fdrs k = Some (if b > 0 then min 1 (a / real b) else 1, a, b)"
proof -
  let ?obs = "map (\<lambda>x. min (mProbabilityOverRepresentation (snd x))
                          (mProbabilityUnderRepresentation (snd x))) pairs"
  have d: "distinct (map fst pairs)"
    unfolding assms(5) using assms(1) AnalyseGO_distinct [OF assms(2)]
    by (auto intro: items_distinct)
  from assms(1,5) have "set pairs = set (mResults go_results)" by (metis set_mset_mset)
  then have "fst ` set pairs = set (dict_keys (mResults go_results))"
    by (simp add: dict_keys_def)
  with AnalyseGO_keys [OF assms(2)] getSamples_keys [OF assms(3,1,4)]
  have "fst ` set pairs \<subseteq> dom (map_of samples)" by simp
  from fdr_loop_total [OF this] obtain fdrs where loop:
    "fdr_loop samples simulation_min_pvalues (sort ?obs) sample_size pairs [] = Inr fdrs"
    by blast
  with assms(4) have calc:
    "calculate_fdrs doFDR samples simulation_min_pvalues sample_size pairs = Inr fdrs"
    by (simp add: calculate_fdrs_def)
  have sim: "count_below simulation_min_pvalues p 0
               = length (filter (\<lambda>x. x < p) simulation_min_pvalues)"
    using getSamples_sorted [OF assms(3)] by (rule count_below_sorted)
  have "count_below (sort ?obs) p 0 = length (filter (\<lambda>x. x < p) (sort ?obs))"
    by (rule count_below_sorted) simp
  also have "\<dots> = length (filter (\<lambda>x. x < p) ?obs)" by (rule length_filter_sort)
  also have "\<dots> = b" by (simp add: assms(9) filter_map o_def)
  finally have obs: "count_below (sort ?obs) p 0 = b" .
  from fdr_loop_entry [OF loop d assms(6)] sim obs assms(7,8)
  have "map_of fdrs k = Some (if b > 0 then min 1 (a / real b) else 1, a, b)"
    by (simp add: sampling_fdr_def Let_def)
  with calc show ?thesis by blast
qed

theorem sampling_fdr_estimate_witness:
  "(\<forall>d :: (string \<times> GOResult) list. mset (id d) = mset d)
   \<and> AnalyseGO four_genes [''g1''] (PyList [''g2'', ''g1'', ''g3'', ''g4'']) True
       = Inr observed_results
   \<and> getSamples first_sample id four_genes [''g1''] (PyList [''g2'', ''g1'', ''g3'', ''g4'']) 1 0
       = Inr ((null_samples, [1 / 2, 3 / 4, 3 / 4]), 1)
   \<and> (1::int) > 0
   \<and> (''C'', observed_C) \<in> set (id (mResults observed_results))
   \<and> (\<exists>fdrs. calculate_fdrs id null_samples [1 / 2, 3 / 4, 3 / 4] 1
                 (id (mResults observed_results)) = Inr fdrs
              \<and> map_of fdrs ''C'' = Some (1 / 2, 1, 2))"
proof -
  have perm: "\<forall>d :: (string \<times> GOResult) list. mset (id d) = mset d" by simp
  have m: "(''C'', observed_C) \<in> set (id (mResults observed_results))"
    by (simp add: observed_results_def)
  have p: "(3 / 4 :: real) = min (mProbabilityOverRepresentation observed_C)
                                 (mProbabilityUnderRepresentation observed_C)"
    by (simp add: observed_C_def)
  have a: "(1::real) = real (length (filter (\<lambda>x. x < 3 / 4) [1 / 2, 3 / 4, 3 / 4 :: real]))
                         / real_of_int 1"
    by simp
  have b: "(2::nat) = length (filter (\<lambda>x. min (mProbabilityOverRepresentation (snd x))
                                     (mProbabilityUnderRepresentation (snd x)) < 3 / 4)
                         (id (mResults observed_results)))"
    by (simp add: observed_results_def observed_A_def observed_B_def observed_C_def)
  from sampling_fdr_estimate [OF perm AnalyseGO_observed getSamples_null _ refl m p a b,
      where doFDR = id]
  have "\<exists>fdrs. calculate_fdrs id null_samples [1 / 2, 3 / 4, 3 / 4] 1
                 (id (mResults observed_results)) = Inr fdrs
              \<and> map_of fdrs ''C'' = Some (1 / 2, 1, 2)"
    by simp
  with perm AnalyseGO_observed getSamples_null m show ?thesis by simp
qed

end
